theory Spec2Isabelle
  imports Main "HOL-Library.AList"
begin

section \<open>Exceptions and values\<close>

text \<open>
  The exceptions that \<^verbatim>\<open>flaskbb/plugins/__init__.py\<close> raises, catches or lets
  pass. \<open>OtherError\<close> stands for whatever an external collaborator (a plugin class, the
  table machinery of the object-relational mapper, the migration tool) raises of its own.
  A computation that may raise returns \<open>exn + 'a\<close>, with \<open>Inl\<close> the exception.
\<close>

datatype exn =
    AttributeError
  | TypeError
  | RecursionError
  | ValueError
  | PluginError string
  | OtherError string

section \<open>Strings and POSIX paths\<close>

text \<open>
  \<^verbatim>\<open>s.split(sep)\<close> for a one-character separator: the pieces between the
  occurrences of the separator, empty pieces included; never an empty list.
\<close>

fun str_split :: "char \<Rightarrow> string \<Rightarrow> string list" where
  "str_split sep [] = [[]]"
| "str_split sep (c # cs) =
     (if c = sep then [] # str_split sep cs
      else (case str_split sep cs of
              [] \<Rightarrow> [[c]]
            | w # ws \<Rightarrow> (c # w) # ws))"

text \<open>\<^verbatim>\<open>sep.join(xs)\<close>.\<close>

fun str_join :: "string \<Rightarrow> string list \<Rightarrow> string" where
  "str_join sep [] = []"
| "str_join sep [x] = x"
| "str_join sep (x # y # ys) = x @ sep @ str_join sep (y # ys)"

definition startswith_sep :: "string \<Rightarrow> bool" where
  "startswith_sep b = (case b of [] \<Rightarrow> False | c # _ \<Rightarrow> c = CHR ''/'')"

definition endswith_sep :: "string \<Rightarrow> bool" where
  "endswith_sep p = (case rev p of [] \<Rightarrow> False | c # _ \<Rightarrow> c = CHR ''/'')"

text \<open>
  \<^verbatim>\<open>os.path.join(a, *p)\<close> of \<^verbatim>\<open>posixpath\<close>; the module splits resource
  names at \<^verbatim>\<open>'/'\<close>, so it is the POSIX flavour that is modelled. One round of the
  loop over \<open>p\<close>:
  \<^verbatim>\<open>
      if b.startswith(sep):               path = b
      elif not path or path.endswith(sep): path += b
      else:                                path += sep + b
  \<close>
\<close>

definition join_step :: "string \<Rightarrow> string \<Rightarrow> string" where
  "join_step path b =
     (if startswith_sep b then b
      else if path = [] \<or> endswith_sep path then path @ b
      else path @ ''/'' @ b)"

definition os_path_join :: "string \<Rightarrow> string list \<Rightarrow> string" where
  "os_path_join a p = foldl join_step a p"

text \<open>
  \<^verbatim>\<open>os.path.split(p)\<close> of \<^verbatim>\<open>posixpath\<close>:
  \<^verbatim>\<open>
      i = p.rfind(sep) + 1
      head, tail = p[:i], p[i:]
      if head and head != sep*len(head):
          head = head.rstrip(sep)
      return head, tail
  \<close>
\<close>

definition rstrip_sep :: "string \<Rightarrow> string" where
  "rstrip_sep s = rev (dropWhile (\<lambda>c. c = CHR ''/'') (rev s))"

definition os_path_split :: "string \<Rightarrow> string \<times> string" where
  "os_path_split p =
     (let tail = rev (takeWhile (\<lambda>c. c \<noteq> CHR ''/'') (rev p));
          head = take (length p - length tail) p
      in (if head \<noteq> [] \<and> head \<noteq> replicate (length head) CHR ''/''
          then rstrip_sep head else head,
          tail))"

section \<open>The plugin base class\<close>

text \<open>
  An instance of \<^verbatim>\<open>FlaskBBPlugin\<close>, with the attributes the module reads:
  \<open>identifier'\<close> (the attribute \<^verbatim>\<open>identifier\<close>) and \<open>path\<close> are set by the
  constructor of the base class \<^verbatim>\<open>flask_plugins.Plugin\<close>, \<open>settings_key\<close> is the
  class attribute, \<open>None\<close> unless a plugin overrides it.
\<close>

record plugin =
  identifier' :: string
  path :: string
  settings_key :: "string option"

text \<open>The class attribute as \<^verbatim>\<open>FlaskBBPlugin\<close> declares it: \<^verbatim>\<open>settings_key = None\<close>.\<close>

definition default_settings_key :: "string option" where
  "default_settings_key = None"

text \<open>
  \<^verbatim>\<open>
  def resource_filename(self, *names):
      if len(names) == 1 and '/' in names[0]:
          names = names[0].split('/')
      fname = os.path.join(self.path, *names)
      if ' ' in fname and not DQUOTE in fname and not QUOTE in fname:
          fname = DQUOTE + fname + DQUOTE
      return fname
  \<close>
  (\<^verbatim>\<open>DQUOTE\<close> is the one-character string holding the double quote, \<open>CHR 0x22\<close>,
  \<^verbatim>\<open>QUOTE\<close> the one holding the single quote, \<open>CHR 0x27\<close>; the source formats with
  \<^verbatim>\<open>%s\<close> between two double quotes.)
\<close>

definition resource_filename :: "plugin \<Rightarrow> string list \<Rightarrow> string" where
  "resource_filename self names =
     (let names = (if length names = 1 \<and> CHR ''/'' \<in> set (names ! 0)
                   then str_split CHR ''/'' (names ! 0) else names);
          fname = os_path_join (path self) names
      in if CHR '' '' \<in> set fname \<and> \<not> CHR 0x22 \<in> set fname \<and> \<not> CHR 0x27 \<in> set fname
         then [CHR 0x22] @ fname @ [CHR 0x22]
         else fname)"

definition get_migration_version_dir :: "plugin \<Rightarrow> string" where
  "get_migration_version_dir self = resource_filename self [''migration_versions'']"

text \<open>
  \<^verbatim>\<open>
  @property
  def installable(self):
      if self.settings_key is not None:
          return True
      return False
  \<close>
\<close>

definition installable :: "plugin \<Rightarrow> bool" where
  "installable self = (if settings_key self \<noteq> None then True else False)"

section \<open>The migration commands\<close>

text \<open>
  The plugin manager that \<^verbatim>\<open>current_app.extensions['plugin_manager']\<close> holds. Its
  three dictionaries are Python dictionaries, which keep the order of insertion:
  association lists updated with \<open>AList.update\<close> (a key already there keeps its place, a
  new one goes to the end). \<open>plugins_dict\<close>, \<open>all_plugins_dict\<close> and
  \<open>found_plugins_dict\<close> are the attributes \<^verbatim>\<open>_plugins\<close>, \<^verbatim>\<open>_all_plugins\<close> and
  \<^verbatim>\<open>_found_plugins\<close>.
\<close>

record plugin_manager =
  plugins_dict :: "(string \<times> plugin) list"
  all_plugins_dict :: "(string \<times> plugin) list"
  found_plugins_dict :: "(string \<times> string) list"
  plugin_folder :: string

text \<open>
  \<^verbatim>\<open>
  def upgrade_database(self, target='head'):
      plugin_dir = current_app.extensions['plugin_manager'].plugin_folder
      upgrade(directory=os.path.join(plugin_dir, '_migration_environment'),
              revision=self.settings_key + '@' + target)
  \<close>
  \<open>upgrade\<close> and \<open>downgrade\<close> are the commands of the migration tool, taken as
  parameters: they act on a world \<open>'w\<close> (the database and the migration files) and may
  raise. An omitted \<open>target\<close> is \<open>None\<close>. Python evaluates the arguments before the
  call, and \<^verbatim>\<open>None + '@'\<close> raises \<^verbatim>\<open>TypeError\<close>: with no settings key the
  command is never reached.
\<close>

definition upgrade_database ::
  "(string \<Rightarrow> string \<Rightarrow> 'w \<Rightarrow> (exn + unit) \<times> 'w) \<Rightarrow> 'm plugin_manager_scheme \<Rightarrow>
     plugin \<Rightarrow> string option \<Rightarrow> 'w \<Rightarrow> (exn + unit) \<times> 'w" where
  "upgrade_database upgrade plugin_manager self target w =
     (let target = (case target of None \<Rightarrow> ''head'' | Some t \<Rightarrow> t);
          plugin_dir = plugin_folder plugin_manager;
          directory = os_path_join plugin_dir [''_migration_environment'']
      in case settings_key self of
           None \<Rightarrow> (Inl TypeError, w)
         | Some key \<Rightarrow> upgrade directory (key @ ''@'' @ target) w)"

definition downgrade_database ::
  "(string \<Rightarrow> string \<Rightarrow> 'w \<Rightarrow> (exn + unit) \<times> 'w) \<Rightarrow> 'm plugin_manager_scheme \<Rightarrow>
     plugin \<Rightarrow> string option \<Rightarrow> 'w \<Rightarrow> (exn + unit) \<times> 'w" where
  "downgrade_database downgrade plugin_manager self target w =
     (let target = (case target of None \<Rightarrow> ''base'' | Some t \<Rightarrow> t);
          plugin_dir = plugin_folder plugin_manager;
          directory = os_path_join plugin_dir [''_migration_environment'']
      in case settings_key self of
           None \<Rightarrow> (Inl TypeError, w)
         | Some key \<Rightarrow> downgrade directory (key @ ''@'' @ target) w)"

section \<open>The configuration callback\<close>

text \<open>
  The configuration object of the migration tool, as far as the callback touches it: the
  options of its main section, as they are stored. Configurations are objects, mutated in
  place and passed by reference: a store maps each reference to the state of its object.
\<close>

record config =
  main_options :: "string \<rightharpoonup> string"

type_synonym cref = nat

text \<open>
  \<^verbatim>\<open>get_main_option\<close> gives \<open>None\<close> for an option that is not set. The options are
  kept by a configuration parser that interpolates on reading: a stored value without a
  percent sign is returned as it is; one with a percent sign goes through the
  interpolation of the parser, which substitutes other options or raises. That
  interpolation is the parameter \<open>interpolate\<close>.
\<close>

definition get_main_option ::
  "('c config_scheme \<Rightarrow> string \<Rightarrow> exn + string) \<Rightarrow> cref \<Rightarrow> string \<Rightarrow>
     (cref \<Rightarrow> 'c config_scheme) \<Rightarrow> exn + string option" where
  "get_main_option interpolate c name st =
     (case main_options (st c) name of
        None \<Rightarrow> Inr None
      | Some v \<Rightarrow>
          if CHR ''%'' \<in> set v
          then (case interpolate (st c) v of Inl e \<Rightarrow> Inl e | Inr v' \<Rightarrow> Inr (Some v'))
          else Inr (Some v))"

text \<open>
  \<^verbatim>\<open>set_main_option\<close> ends in the \<^verbatim>\<open>set\<close> of the parser, which checks the
  value before it stores it:
  \<^verbatim>\<open>
      tmp_value = value.replace('%%', '')      # escaped percent signs
      tmp_value = self._KEYCRE.sub('', tmp_value)   # %(name)s, name not empty, no ')'
      if '%' in tmp_value:
          raise ValueError("invalid interpolation syntax ...")
  \<close>
  \<open>remove_escaped\<close> is the \<^verbatim>\<open>replace\<close>: pairs of percent signs go, from the left.
  \<open>key_match\<close> matches the regular expression \<^verbatim>\<open>%\(([^)]+)\)s\<close> on the text that
  follows a percent sign and gives what follows the match. \<open>remove_keys\<close> is the
  \<^verbatim>\<open>sub\<close>: the matches go, leftmost first; a percent sign that starts no match
  stays.
\<close>

fun remove_escaped :: "string \<Rightarrow> string" where
  "remove_escaped (c # d # cs) =
     (if c = CHR ''%'' \<and> d = CHR ''%'' then remove_escaped cs else c # remove_escaped (d # cs))"
| "remove_escaped cs = cs"

definition key_match :: "string \<Rightarrow> string option" where
  "key_match cs =
     (case cs of
        [] \<Rightarrow> None
      | p # t \<Rightarrow>
          if p \<noteq> CHR ''('' then None
          else (let name = takeWhile (\<lambda>c. c \<noteq> CHR '')'') t;
                    rest = dropWhile (\<lambda>c. c \<noteq> CHR '')'') t
                in if name = [] then None
                   else (case rest of
                           close # s # after \<Rightarrow> if s = CHR ''s'' then Some after else None
                         | _ \<Rightarrow> None)))"

function remove_keys :: "string \<Rightarrow> string" where
  "remove_keys [] = []"
| "remove_keys (c # cs) =
     (if c = CHR ''%''
      then (case key_match cs of
              Some after \<Rightarrow> remove_keys after
            | None \<Rightarrow> c # remove_keys cs)
      else c # remove_keys cs)"
  by pat_completeness auto
termination
proof (relation "measure length")
  show "wf (measure length)" by simp
next
  fix c :: char and cs after :: string
  assume "c = CHR ''%''" and m: "key_match cs = Some after"
  from m obtain p t x y where cs: "cs = p # t"
    and rest: "dropWhile (\<lambda>c. c \<noteq> CHR '')'') t = x # y # after"
    by (auto simp: key_match_def Let_def split: list.splits if_splits)
  have "length (x # y # after) \<le> length t"
    unfolding rest [symmetric] by (rule length_dropWhile_le)
  with cs have "length after < length cs"
    by simp
  then show "(after, c # cs) \<in> measure length" by simp
next
  fix c :: char and cs :: string
  show "(cs, c # cs) \<in> measure length" by simp
next
  fix c :: char and cs :: string
  show "(cs, c # cs) \<in> measure length" by simp
qed

definition lone_percent :: "string \<Rightarrow> bool" where
  "lone_percent v = (CHR ''%'' \<in> set (remove_keys (remove_escaped v)))"

definition set_main_option ::
  "cref \<Rightarrow> string \<Rightarrow> string \<Rightarrow> (cref \<Rightarrow> 'c config_scheme) \<Rightarrow>
     (exn + unit) \<times> (cref \<Rightarrow> 'c config_scheme)" where
  "set_main_option c name v st =
     (if lone_percent v then (Inl ValueError, st)
      else (Inr (), st(c := (st c)\<lparr>main_options := (main_options (st c))(name \<mapsto> v)\<rparr>)))"

text \<open>
  \<^verbatim>\<open>
  def config_migrate(config):
      plugins = current_app.extensions['plugin_manager'].all_plugins.values()
      migration_dirs = [p.get_migration_version_dir() for p in plugins]
      if config.get_main_option('version_table') == 'plugins':
          config.set_main_option('version_locations', ' '.join(migration_dirs))
      return config
  \<close>
  The result is the returned reference, or the exception, and the store after the call.
  The plugins are those the manager has loaded: the values of its dictionary
  \<^verbatim>\<open>_all_plugins\<close>, in the order of the dictionary.
\<close>

definition config_migrate ::
  "('c config_scheme \<Rightarrow> string \<Rightarrow> exn + string) \<Rightarrow> 'm plugin_manager_scheme \<Rightarrow> cref \<Rightarrow>
     (cref \<Rightarrow> 'c config_scheme) \<Rightarrow> (exn + cref) \<times> (cref \<Rightarrow> 'c config_scheme)" where
  "config_migrate interpolate plugin_manager config st =
     (let plugins = map snd (all_plugins_dict plugin_manager);
          migration_dirs = map get_migration_version_dir plugins
      in case get_main_option interpolate config ''version_table'' st of
           Inl e \<Rightarrow> (Inl e, st)
         | Inr version_table \<Rightarrow>
             if version_table = Some ''plugins''
             then (case set_main_option config ''version_locations''
                          (str_join '' '' migration_dirs) st of
                     (Inl e, st') \<Rightarrow> (Inl e, st')
                   | (Inr _, st') \<Rightarrow> (Inr config, st'))
             else (Inr config, st))"

section \<open>The migration scope\<close>

text \<open>
  Attribute values: \<open>None\<close>, a string, a reference to an object, a callable of the
  object-relational mapper (known by a number, run by a parameter of the model), and the
  closure \<^verbatim>\<open>Table\<close> that \<^verbatim>\<open>db_for_plugin\<close> builds, which captures
  \<^verbatim>\<open>plugin_name\<close> and \<^verbatim>\<open>sqla_instance\<close>.
\<close>

type_synonym addr = nat

datatype val =
    VNone
  | VStr string
  | VRef addr
  | VExtern nat
  | VTableClosure string addr

text \<open>
  The application context, with the attribute dictionary of \<^verbatim>\<open>flask.g\<close>; an
  application context is taken to be active.
\<close>

record app_ctx =
  g :: "string \<rightharpoonup> val"

text \<open>
  \<^verbatim>\<open>
  @contextlib.contextmanager
  def plugin_name_migrate(name):
      g.plugin_name = name
      yield
      del g.plugin_name
  \<close>
  The generator has two parts. \<^verbatim>\<open>__enter__\<close> runs it up to the \<^verbatim>\<open>yield\<close>.
  When the block ends normally, \<^verbatim>\<open>__exit__\<close> resumes it after the \<^verbatim>\<open>yield\<close>;
  \<^verbatim>\<open>del\<close> of an attribute that is not there raises \<^verbatim>\<open>AttributeError\<close>. When the
  block raises, \<^verbatim>\<open>__exit__\<close> throws the exception into the generator at the
  \<^verbatim>\<open>yield\<close>, which stands in no \<^verbatim>\<open>try\<close>: the exception leaves the generator at
  once, the rest of it never runs, and the \<^verbatim>\<open>with\<close> statement raises it again.
\<close>

definition plugin_name_migrate_enter :: "string \<Rightarrow> 'x app_ctx_scheme \<Rightarrow> 'x app_ctx_scheme" where
  "plugin_name_migrate_enter name s = s\<lparr>g := (g s)(''plugin_name'' \<mapsto> VStr name)\<rparr>"

definition plugin_name_migrate_resume :: "'x app_ctx_scheme \<Rightarrow> (exn + unit) \<times> 'x app_ctx_scheme" where
  "plugin_name_migrate_resume s =
     (case g s ''plugin_name'' of
        None \<Rightarrow> (Inl AttributeError, s)
      | Some _ \<Rightarrow> (Inr (), s\<lparr>g := (g s)(''plugin_name'' := None)\<rparr>))"

text \<open>
  \<^verbatim>\<open>with plugin_name_migrate(name): body\<close>, the body a function of the state that
  returns a value or raises, together with the state it leaves.
\<close>

definition with_plugin_name_migrate ::
  "string \<Rightarrow> ('x app_ctx_scheme \<Rightarrow> (exn + 'r) \<times> 'x app_ctx_scheme) \<Rightarrow>
     'x app_ctx_scheme \<Rightarrow> (exn + 'r) \<times> 'x app_ctx_scheme" where
  "with_plugin_name_migrate name body s =
     (case body (plugin_name_migrate_enter name s) of
        (Inl e, s1) \<Rightarrow> (Inl e, s1)
      | (Inr r, s1) \<Rightarrow>
          (case plugin_name_migrate_resume s1 of
             (Inl e, s2) \<Rightarrow> (Inl e, s2)
           | (Inr _, s2) \<Rightarrow> (Inr r, s2)))"

section \<open>Tables tagged with their plugin\<close>

text \<open>
  Objects are attribute dictionaries in a heap. \<open>next_addr\<close> is the first address
  never handed out: an object lives at every address below it, and a new object is put
  there.
\<close>

type_synonym obj = "string \<rightharpoonup> val"

record heap =
  cells :: "addr \<Rightarrow> obj"
  next_addr :: addr

definition getattr :: "addr \<Rightarrow> string \<Rightarrow> heap \<Rightarrow> exn + val" where
  "getattr a name h = (case cells h a name of None \<Rightarrow> Inl AttributeError | Some v \<Rightarrow> Inr v)"

definition setattr :: "addr \<Rightarrow> string \<Rightarrow> val \<Rightarrow> heap \<Rightarrow> heap" where
  "setattr a name v h = h\<lparr>cells := (cells h)(a := (cells h a)(name \<mapsto> v))\<rparr>"

text \<open>
  \<^verbatim>\<open>copy.copy(x)\<close> of an ordinary object: a new object with a copy of the attribute
  dictionary of \<open>x\<close>; the attribute values themselves are shared.
\<close>

definition copy_copy :: "addr \<Rightarrow> heap \<Rightarrow> addr \<times> heap" where
  "copy_copy a h =
     (next_addr h, h\<lparr>cells := (cells h)(next_addr h := cells h a), next_addr := Suc (next_addr h)\<rparr>)"

text \<open>
  \<^verbatim>\<open>
  def db_for_plugin(plugin_name, sqla_instance=None):
      if sqla_instance is None:
          from flaskbb.extensions import db
          sqla_instance = db
      new_db = copy.copy(sqla_instance)

      def Table(*args, **kwargs):
          new_table = sqla_instance.Table(*args, **kwargs)
          new_table._plugin = plugin_name
          return new_table

      new_db.Table = Table
      return new_db
  \<close>
  \<open>db\<close> is the default instance of \<^verbatim>\<open>flaskbb.extensions\<close>, a parameter.
\<close>

definition db_for_plugin :: "addr \<Rightarrow> string \<Rightarrow> addr option \<Rightarrow> heap \<Rightarrow> addr \<times> heap" where
  "db_for_plugin db plugin_name sqla_instance h =
     (let sqla_instance = (case sqla_instance of None \<Rightarrow> db | Some a \<Rightarrow> a);
          (new_db, h1) = copy_copy sqla_instance h;
          h2 = setattr new_db ''Table'' (VTableClosure plugin_name sqla_instance) h1
      in (new_db, h2))"

text \<open>
  The body of the closure. \<open>call\<close> runs a callable value on the arguments \<open>args\<close>
  (positional and keyword arguments together, of any type \<open>'a\<close>) and gives the object it
  returns, or the exception, and the heap it leaves. The table machinery returns table
  objects, which take new attributes.
\<close>

definition Table ::
  "(val \<Rightarrow> 'a \<Rightarrow> heap \<Rightarrow> (exn + addr) \<times> heap) \<Rightarrow> string \<Rightarrow> addr \<Rightarrow> 'a \<Rightarrow> heap \<Rightarrow> (exn + addr) \<times> heap" where
  "Table call plugin_name sqla_instance args h =
     (case getattr sqla_instance ''Table'' h of
        Inl e \<Rightarrow> (Inl e, h)
      | Inr f \<Rightarrow>
          (case call f args h of
             (Inl e, h1) \<Rightarrow> (Inl e, h1)
           | (Inr new_table, h1) \<Rightarrow>
               (Inr new_table, setattr new_table ''_plugin'' (VStr plugin_name) h1)))"

text \<open>
  Calling a value. \<open>ext\<close> runs the callables of the object-relational mapper. A
  closure of \<^verbatim>\<open>db_for_plugin\<close> runs \<open>Table\<close>, one frame deeper; the interpreter
  allows a bounded depth of frames and raises \<^verbatim>\<open>RecursionError\<close> beyond it. Anything
  else is not callable.
\<close>

primrec call_value ::
  "(nat \<Rightarrow> 'a \<Rightarrow> heap \<Rightarrow> (exn + addr) \<times> heap) \<Rightarrow> nat \<Rightarrow> val \<Rightarrow> 'a \<Rightarrow> heap \<Rightarrow> (exn + addr) \<times> heap" where
  "call_value ext 0 = (\<lambda>f args h. (Inl RecursionError, h))"
| "call_value ext (Suc depth) =
     (\<lambda>f args h.
        case f of
          VExtern k \<Rightarrow> ext k args h
        | VTableClosure plugin_name sqla_instance \<Rightarrow>
            Table (call_value ext depth) plugin_name sqla_instance args h
        | _ \<Rightarrow> (Inl TypeError, h))"

text \<open>\<^verbatim>\<open>x.Table(*args, **kwargs)\<close>: the attribute is looked up, then called.\<close>

definition call_Table ::
  "(nat \<Rightarrow> 'a \<Rightarrow> heap \<Rightarrow> (exn + addr) \<times> heap) \<Rightarrow> nat \<Rightarrow> addr \<Rightarrow> 'a \<Rightarrow> heap \<Rightarrow> (exn + addr) \<times> heap" where
  "call_Table ext depth x args h =
     (case getattr x ''Table'' h of
        Inl e \<Rightarrow> (Inl e, h)
      | Inr f \<Rightarrow> call_value ext depth f args h)"

section \<open>Loading the plugins\<close>

text \<open>
  What \<^verbatim>\<open>pkgutil.get_data(pkgname, 'DISABLED')\<close> does, as its documentation has
  it: it returns the data (or \<open>None\<close> when the loader has none to give), or raises
  \<^verbatim>\<open>IOError\<close> when the file cannot be read.
\<close>

datatype get_data_result = Data "string option" | RaisesIOError

text \<open>
  A package that \<^verbatim>\<open>pkgutil.iter_modules\<close> found and the importer loaded:
  \<^item> \<open>get_data_DISABLED\<close>: the outcome of reading its \<^verbatim>\<open>DISABLED\<close> file;
  \<^item> \<open>dunder_plugin\<close>: its attribute \<^verbatim>\<open>__plugin__\<close>, \<open>None\<close> when it has none;
  \<^item> \<open>pkg_getattr\<close>: its attributes by name, each as what calling it on a path does
    (a plugin class builds an instance or raises; calling anything else raises);
  \<^item> \<open>get_filename\<close>: \<^verbatim>\<open>pkgutil.get_loader(pkg).get_filename()\<close>.
\<close>

record package =
  get_data_DISABLED :: get_data_result
  dunder_plugin :: "string option"
  pkg_getattr :: "string \<rightharpoonup> (string \<Rightarrow> exn + plugin)"
  get_filename :: string

definition import_error_message :: "string \<Rightarrow> string" where
  "import_error_message class_name =
     ''Couldn'' @ [CHR 0x27] @ ''t import '' @ class_name @
     '' Plugin. Please check if the __plugin__ variable is set correctly.''"

text \<open>
  The loop of \<^verbatim>\<open>load_plugins\<close> over \<^verbatim>\<open>pluginmodules\<close>:
  \<^verbatim>\<open>
      for pkgname, pkg in pluginmodules:
          try:
              pkgutil.get_data(pkgname, 'DISABLED')
              enabled = False
          except IOError:
              enabled = True
          try:
              class_name = pkg.__plugin__
              self._found_plugins[class_name] = "{}".format(pkgname)
          except AttributeError:
              continue
          try:
              plugin_class = getattr(pkg, class_name)
          except AttributeError:
              raise PluginError("Couldn't import {} Plugin. Please check if the "
                                "__plugin__ variable is set correctly.".format(class_name))
          plugin_path = os.path.split(pkgutil.get_loader(pkg).get_filename())[0]
          plugin_instance = plugin_class(plugin_path)
          if enabled:
              self._plugins[plugin_instance.identifier] = plugin_instance
          self._all_plugins[plugin_instance.identifier] = plugin_instance
  \<close>
  An exception leaves the manager as it was when it was raised.
\<close>

fun load_loop ::
  "(string \<times> package) list \<Rightarrow> plugin_manager \<Rightarrow> (exn + unit) \<times> plugin_manager" where
  "load_loop [] self = (Inr (), self)"
| "load_loop ((pkgname, pkg) # rest) self =
     (let enabled = (case get_data_DISABLED pkg of Data _ \<Rightarrow> False | RaisesIOError \<Rightarrow> True)
      in case dunder_plugin pkg of
           None \<Rightarrow> load_loop rest self
         | Some class_name \<Rightarrow>
             (let self1 = self\<lparr>found_plugins_dict :=
                            AList.update class_name pkgname (found_plugins_dict self)\<rparr>
              in case pkg_getattr pkg class_name of
                   None \<Rightarrow> (Inl (PluginError (import_error_message class_name)), self1)
                 | Some plugin_class \<Rightarrow>
                     (let plugin_path = fst (os_path_split (get_filename pkg))
                      in case plugin_class plugin_path of
                           Inl e \<Rightarrow> (Inl e, self1)
                         | Inr plugin_instance \<Rightarrow>
                             (let self2 = (if enabled
                                           then self1\<lparr>plugins_dict :=
                                                  AList.update (identifier' plugin_instance)
                                                    plugin_instance (plugins_dict self1)\<rparr>
                                           else self1);
                                  self3 = self2\<lparr>all_plugins_dict :=
                                            AList.update (identifier' plugin_instance)
                                              plugin_instance (all_plugins_dict self2)\<rparr>
                              in load_loop rest self3))))"

text \<open>
  \<^verbatim>\<open>
  def load_plugins(self):
      self._plugins = {}
      self._all_plugins = {}
      pluginmodules = [...]
      for pkgname, pkg in pluginmodules: ...
      return self._found_plugins
  \<close>
  \<open>pluginmodules\<close>, the packages found and loaded, is a parameter.
\<close>

definition load_plugins ::
  "(string \<times> package) list \<Rightarrow> plugin_manager \<Rightarrow> (exn + (string \<times> string) list) \<times> plugin_manager" where
  "load_plugins pluginmodules self =
     (case load_loop pluginmodules (self\<lparr>plugins_dict := [], all_plugins_dict := []\<rparr>) of
        (Inl e, self') \<Rightarrow> (Inl e, self')
      | (Inr _, self') \<Rightarrow> (Inr (found_plugins_dict self'), self'))"

text \<open>
  Three notions to speak about the loop. The plugin a package yields: the instance its
  \<^verbatim>\<open>__plugin__\<close> class builds on the directory of the package, when the package
  names a class, has it, and the class does not raise. A package is enabled when reading
  its \<^verbatim>\<open>DISABLED\<close> file raises \<^verbatim>\<open>IOError\<close>. The identifiers of the plugins
  that a list of packages yields.
\<close>

definition plugin_instance_of :: "package \<Rightarrow> plugin option" where
  "plugin_instance_of pkg =
     (case dunder_plugin pkg of
        None \<Rightarrow> None
      | Some class_name \<Rightarrow>
          (case pkg_getattr pkg class_name of
             None \<Rightarrow> None
           | Some plugin_class \<Rightarrow>
               (case plugin_class (fst (os_path_split (get_filename pkg))) of
                  Inl e \<Rightarrow> None
                | Inr plugin_instance \<Rightarrow> Some plugin_instance)))"

definition enabled :: "package \<Rightarrow> bool" where
  "enabled pkg = (get_data_DISABLED pkg = RaisesIOError)"

definition identifiers_of :: "(string \<times> package) list \<Rightarrow> string list" where
  "identifiers_of pluginmodules =
     map identifier' (List.map_filter (\<lambda>(pkgname, pkg). plugin_instance_of pkg) pluginmodules)"

section \<open>Sample data\<close>

text \<open>
  A heap with one database instance at address 0, whose \<^verbatim>\<open>Table\<close> is callable 0 of
  the object-relational mapper; a mapper whose callable 0 makes a table object that
  carries its name; two plugins and a manager that holds them.
\<close>

definition sample_heap :: heap where
  "sample_heap =
     \<lparr>cells = (\<lambda>_. Map.empty)(0 := [''Table'' \<mapsto> VExtern 0, ''Model'' \<mapsto> VExtern 1]),
      next_addr = 1\<rparr>"

definition sample_orm :: "nat \<Rightarrow> string \<Rightarrow> heap \<Rightarrow> (exn + addr) \<times> heap" where
  "sample_orm k args h =
     (if k = 0
      then (Inr (next_addr h),
            h\<lparr>cells := (cells h)(next_addr h := [''name'' \<mapsto> VStr args]),
              next_addr := Suc (next_addr h)\<rparr>)
      else (Inl (OtherError ''not a table''), h))"

definition sample_plugin :: plugin where
  "sample_plugin = \<lparr>identifier' = ''portal'', path = ''/srv/plugins/portal'', settings_key = Some ''portal''\<rparr>"

definition sample_plugin_spaced :: plugin where
  "sample_plugin_spaced = \<lparr>identifier' = ''polls'', path = ''/srv/my plugins/polls'', settings_key = None\<rparr>"

definition sample_manager :: plugin_manager where
  "sample_manager =
     \<lparr>plugins_dict = [(''portal'', sample_plugin)],
      all_plugins_dict = [(''portal'', sample_plugin), (''polls'', sample_plugin_spaced)],
      found_plugins_dict = [], plugin_folder = ''/srv/plugins''\<rparr>"

text \<open>
  Three bodies for a \<^verbatim>\<open>with\<close> block: one returns the plugin name it sees, one
  clears every attribute of \<^verbatim>\<open>g\<close>, one raises. A migration command that only
  records the directory and the revision it is given.
\<close>

definition body_reads_name :: "app_ctx \<Rightarrow> (exn + val option) \<times> app_ctx" where
  "body_reads_name s = (Inr (g s ''plugin_name''), s)"

definition body_clears_g :: "app_ctx \<Rightarrow> (exn + unit) \<times> app_ctx" where
  "body_clears_g s = (Inr (), s\<lparr>g := Map.empty\<rparr>)"

definition body_raises :: "app_ctx \<Rightarrow> (exn + unit) \<times> app_ctx" where
  "body_raises s = (Inl (OtherError ''no such revision''), s)"

definition record_command :: "string \<Rightarrow> string \<Rightarrow> (string \<times> string) list \<Rightarrow> (exn + unit) \<times> (string \<times> string) list" where
  "record_command directory revision w = (Inr (), (directory, revision) # w)"

text \<open>
  Packages: \<open>portal\<close> defines the plugin class it names; \<open>portal_old\<close> is a copy of
  it in another directory, with a \<^verbatim>\<open>DISABLED\<close> file and the same identifier;
  \<open>helpers\<close> has no \<^verbatim>\<open>__plugin__\<close>; \<open>polls\<close> names a class it does not have.
\<close>

definition portal_class :: "string \<Rightarrow> exn + plugin" where
  "portal_class plugin_path =
     Inr \<lparr>identifier' = ''portal'', path = plugin_path, settings_key = Some ''portal''\<rparr>"

definition sample_pkg_portal :: package where
  "sample_pkg_portal =
     \<lparr>get_data_DISABLED = RaisesIOError, dunder_plugin = Some ''PortalPlugin'',
      pkg_getattr = [''PortalPlugin'' \<mapsto> portal_class],
      get_filename = ''/srv/plugins/portal/__init__.py''\<rparr>"

definition sample_pkg_portal_old :: package where
  "sample_pkg_portal_old =
     \<lparr>get_data_DISABLED = Data (Some []), dunder_plugin = Some ''PortalPlugin'',
      pkg_getattr = [''PortalPlugin'' \<mapsto> portal_class],
      get_filename = ''/srv/plugins/portal_old/__init__.py''\<rparr>"

definition sample_pkg_helpers :: package where
  "sample_pkg_helpers =
     \<lparr>get_data_DISABLED = RaisesIOError, dunder_plugin = None,
      pkg_getattr = Map.empty,
      get_filename = ''/srv/plugins/helpers/__init__.py''\<rparr>"

definition sample_pkg_broken :: package where
  "sample_pkg_broken =
     \<lparr>get_data_DISABLED = RaisesIOError, dunder_plugin = Some ''PollsPlugin'',
      pkg_getattr = [''Polls'' \<mapsto> portal_class],
      get_filename = ''/srv/plugins/polls/__init__.py''\<rparr>"

text \<open>
  A plugin in a directory whose name holds a percent sign, a manager that holds it, and
  an interpolation that raises on every value it is given.
\<close>

definition sample_plugin_percent :: plugin where
  "sample_plugin_percent = \<lparr>identifier' = ''pct'', path = ''/srv/100%/pct'', settings_key = None\<rparr>"

definition sample_manager_percent :: plugin_manager where
  "sample_manager_percent =
     \<lparr>plugins_dict = [], all_plugins_dict = [(''pct'', sample_plugin_percent)],
      found_plugins_dict = [], plugin_folder = ''/srv/100%''\<rparr>"

definition no_interpolation :: "config \<Rightarrow> string \<Rightarrow> exn + string" where
  "no_interpolation cfg v = Inl (OtherError ''InterpolationSyntaxError'')"

section \<open>Facts about strings and paths\<close>

lemma endswith_sep_iff: "endswith_sep p \<longleftrightarrow> p \<noteq> [] \<and> last p = CHR ''/''"
  by (cases p rule: rev_cases) (simp_all add: endswith_sep_def)

lemma os_path_join_single:
  "\<not> startswith_sep b \<Longrightarrow>
   os_path_join a [b] = (if a = [] \<or> last a = CHR ''/'' then a @ b else a @ ''/'' @ b)"
  by (auto simp: os_path_join_def join_step_def endswith_sep_iff)

lemma str_split_nonempty: "str_split sep s \<noteq> []"
  by (induction s) (auto split: list.splits)

text \<open>Splitting loses nothing: joining the pieces with the separator gives the string back.\<close>

lemma str_join_split: "str_join [sep] (str_split sep s) = s"
proof (induction s)
  case Nil
  then show ?case by simp
next
  case (Cons c cs)
  obtain w ws where ws: "str_split sep cs = w # ws"
    using str_split_nonempty [of sep cs] by (cases "str_split sep cs") auto
  show ?case
  proof (cases "c = sep")
    case True
    with Cons ws show ?thesis by simp
  next
    case False
    with Cons ws show ?thesis by (cases ws) auto
  qed
qed

lemma str_split_no_sep: "w \<in> set (str_split sep s) \<Longrightarrow> sep \<notin> set w"
proof (induction s arbitrary: w)
  case Nil
  then show ?case by simp
next
  case (Cons c cs)
  then show ?case
    by (cases "str_split sep cs") (auto split: if_splits)
qed

section \<open>The plugin base class: what is proved\<close>

text \<open>
  Claim C7. A plugin is installable exactly when its settings key is not \<open>None\<close>; a
  plugin that keeps the default settings key of the base class, \<open>None\<close>, is not
  installable.
\<close>

theorem installable_iff_settings_key:
  "(installable p \<longleftrightarrow> settings_key p \<noteq> None) \<and>
   (settings_key p = default_settings_key \<longrightarrow> \<not> installable p)"
  by (simp add: installable_def default_settings_key_def)

theorem installable_iff_settings_key_witness:
  "settings_key \<lparr>identifier' = ''portal'', path = ''/srv/plugins/portal'', settings_key = None\<rparr>
     = default_settings_key \<and>
   \<not> installable \<lparr>identifier' = ''portal'', path = ''/srv/plugins/portal'', settings_key = None\<rparr> \<and>
   installable \<lparr>identifier' = ''portal'', path = ''/srv/plugins/portal'', settings_key = Some ''portal''\<rparr>"
  using installable_iff_settings_key
          [of "\<lparr>identifier' = ''portal'', path = ''/srv/plugins/portal'', settings_key = None\<rparr>"]
        installable_iff_settings_key
          [of "\<lparr>identifier' = ''portal'', path = ''/srv/plugins/portal'', settings_key = Some ''portal''\<rparr>"]
  by (simp add: default_settings_key_def)

text \<open>
  Claim C9. \<open>resource_filename\<close> takes as components the pieces of a single argument
  that contains a slash (the argument list itself otherwise), joins them onto the path of
  the plugin, and returns the joined path as it is, unless it contains a space and
  neither a double quote nor a single quote: then it returns the path between two double
  quotes. The pieces of a string are its path components: joined with slashes they give
  the string back, and none of them contains a slash.
\<close>

theorem resource_filename_steps:
  "resource_filename p names =
     (let comps = (if length names = 1 \<and> CHR ''/'' \<in> set (names ! 0)
                   then str_split CHR ''/'' (names ! 0) else names);
          joined = os_path_join (path p) comps
      in if CHR '' '' \<in> set joined \<and> CHR 0x22 \<notin> set joined \<and> CHR 0x27 \<notin> set joined
         then [CHR 0x22] @ joined @ [CHR 0x22]
         else joined) \<and>
   str_join ''/'' (str_split CHR ''/'' n) = n \<and>
   (\<forall>c \<in> set (str_split CHR ''/'' n). CHR ''/'' \<notin> set c)"
  by (simp add: resource_filename_def Let_def str_join_split str_split_no_sep)

theorem resource_filename_steps_witness:
  "resource_filename \<lparr>identifier' = ''portal'', path = ''/srv/my plugins/portal'', settings_key = None\<rparr>
     [''static/site.css'']
     = [CHR 0x22] @ ''/srv/my plugins/portal/static/site.css'' @ [CHR 0x22] \<and>
   resource_filename \<lparr>identifier' = ''portal'', path = ''/srv/plugins/portal'', settings_key = None\<rparr>
     [''static'', ''site.css'']
     = ''/srv/plugins/portal/static/site.css'' \<and>
   resource_filename \<lparr>identifier' = ''portal'', path = ''/srv/plugins/portal'', settings_key = None\<rparr>
     [''//static'']
     = ''/srv/plugins/portal/static'' \<and>
   str_split CHR ''/'' ''static/site.css'' = [''static'', ''site.css'']"
  using resource_filename_steps
          [of "\<lparr>identifier' = ''portal'', path = ''/srv/my plugins/portal'', settings_key = None\<rparr>"
              "[''static/site.css'']" "''static/site.css''"]
        resource_filename_steps
          [of "\<lparr>identifier' = ''portal'', path = ''/srv/plugins/portal'', settings_key = None\<rparr>"
              "[''static'', ''site.css'']" "[]"]
        resource_filename_steps
          [of "\<lparr>identifier' = ''portal'', path = ''/srv/plugins/portal'', settings_key = None\<rparr>"
              "[''//static'']" "[]"]
  by (simp add: os_path_join_def join_step_def startswith_sep_def endswith_sep_def)

section \<open>The migration commands: what is proved\<close>

text \<open>
  Claim C5. For a plugin with a settings key, \<open>upgrade_database\<close> runs the upgrade
  command of the migration tool, and \<open>downgrade_database\<close> the downgrade command, on the
  directory \<^verbatim>\<open>_migration_environment\<close> under the plugin folder and the revision
  made of the settings key, \<^verbatim>\<open>@\<close> and the target; a target left out is
  \<^verbatim>\<open>head\<close> for an upgrade and \<^verbatim>\<open>base\<close> for a downgrade. The directory is the
  join of the two paths: one slash is put between them, unless the plugin folder is empty
  or ends with a slash already.
\<close>

theorem upgrade_downgrade_database_commands:
  assumes "settings_key p = Some key"
  shows "upgrade_database up mgr p target w =
           up (if plugin_folder mgr = [] \<or> last (plugin_folder mgr) = CHR ''/''
               then plugin_folder mgr @ ''_migration_environment''
               else plugin_folder mgr @ ''/_migration_environment'')
              (key @ ''@'' @ (case target of None \<Rightarrow> ''head'' | Some t \<Rightarrow> t)) w \<and>
         downgrade_database down mgr p target w =
           down (if plugin_folder mgr = [] \<or> last (plugin_folder mgr) = CHR ''/''
                 then plugin_folder mgr @ ''_migration_environment''
                 else plugin_folder mgr @ ''/_migration_environment'')
                (key @ ''@'' @ (case target of None \<Rightarrow> ''base'' | Some t \<Rightarrow> t)) w"
proof -
  have dir: "os_path_join (plugin_folder mgr) [''_migration_environment''] =
        (if plugin_folder mgr = [] \<or> last (plugin_folder mgr) = CHR ''/''
         then plugin_folder mgr @ ''_migration_environment''
         else plugin_folder mgr @ ''/_migration_environment'')"
    using os_path_join_single [of "''_migration_environment''" "plugin_folder mgr"]
    by (simp add: startswith_sep_def)
  show ?thesis
    using assms by (simp add: upgrade_database_def downgrade_database_def Let_def dir)
qed

theorem upgrade_downgrade_database_commands_witness:
  "settings_key sample_plugin = Some ''portal'' \<and>
   upgrade_database record_command sample_manager sample_plugin None []
     = (Inr (), [(''/srv/plugins/_migration_environment'', ''portal@head'')]) \<and>
   downgrade_database record_command sample_manager sample_plugin None []
     = (Inr (), [(''/srv/plugins/_migration_environment'', ''portal@base'')]) \<and>
   upgrade_database record_command sample_manager sample_plugin (Some ''2f1a'') []
     = (Inr (), [(''/srv/plugins/_migration_environment'', ''portal@2f1a'')])"
proof -
  have key: "settings_key sample_plugin = Some ''portal''"
    by (simp add: sample_plugin_def)
  show ?thesis
    using upgrade_downgrade_database_commands
            [OF key, of record_command sample_manager None "[]"
               record_command]
          upgrade_downgrade_database_commands
            [OF key, of record_command sample_manager "Some ''2f1a''" "[]"
               record_command]
    by (simp add: sample_manager_def key record_command_def)
qed

section \<open>The configuration callback: what is proved\<close>

text \<open>A value without a percent sign passes the check of the parser.\<close>

lemma set_remove_escaped: "set (remove_escaped v) \<subseteq> set v"
  by (induction v rule: remove_escaped.induct) auto

lemma key_match_suffix: "key_match cs = Some after \<Longrightarrow> set after \<subseteq> set cs"
proof -
  assume m: "key_match cs = Some after"
  then obtain p t x y where cs: "cs = p # t"
    and rest: "dropWhile (\<lambda>c. c \<noteq> CHR '')'') t = x # y # after"
    by (auto simp: key_match_def Let_def split: list.splits if_splits)
  have "set (x # y # after) \<subseteq> set t"
    unfolding rest [symmetric] by (auto dest: set_dropWhileD)
  with cs show ?thesis by auto
qed

lemma set_remove_keys: "set (remove_keys v) \<subseteq> set v"
proof (induction v rule: remove_keys.induct)
  case 1
  then show ?case by simp
next
  case (2 c cs)
  show ?case
  proof (cases "c = CHR ''%''")
    case False
    with 2 show ?thesis by auto
  next
    case True
    show ?thesis
    proof (cases "key_match cs")
      case None
      with True 2 show ?thesis by auto
    next
      case (Some after)
      with True 2 key_match_suffix [OF Some] show ?thesis by auto
    qed
  qed
qed

lemma no_percent_ok: "CHR ''%'' \<notin> set v \<Longrightarrow> \<not> lone_percent v"
  using set_remove_keys [of "remove_escaped v"] set_remove_escaped [of v]
  by (auto simp: lone_percent_def)

lemma sample_percent_dir:
  "str_join '' '' (map (\<lambda>(k, p). get_migration_version_dir p) (all_plugins_dict sample_manager_percent))
     = ''/srv/100%/pct/migration_versions''"
  by (simp add: sample_manager_percent_def sample_plugin_percent_def get_migration_version_dir_def
      resource_filename_def os_path_join_def join_step_def startswith_sep_def endswith_sep_def)

lemma sample_percent_lone: "lone_percent ''/srv/100%/pct/migration_versions''"
  by (simp add: lone_percent_def key_match_def)

text \<open>
  Claim C6, as stated, fails: with \<^verbatim>\<open>version_table\<close> equal to \<^verbatim>\<open>plugins\<close> and
  a plugin whose directory name holds a percent sign, \<^verbatim>\<open>set_main_option\<close> raises
  \<^verbatim>\<open>ValueError\<close>: \<open>config_migrate\<close> does not return the configuration, and
  \<^verbatim>\<open>version_locations\<close> is not set.
\<close>

theorem config_migrate_percent_counterexample:
  "get_main_option no_interpolation 0 ''version_table''
     (\<lambda>_. \<lparr>main_options = [''version_table'' \<mapsto> ''plugins'']\<rparr>) = Inr (Some ''plugins'') \<and>
   config_migrate no_interpolation sample_manager_percent 0
     (\<lambda>_. \<lparr>main_options = [''version_table'' \<mapsto> ''plugins'']\<rparr>) =
     (Inl ValueError, \<lambda>_. \<lparr>main_options = [''version_table'' \<mapsto> ''plugins'']\<rparr>) \<and>
   fst (config_migrate no_interpolation sample_manager_percent 0
     (\<lambda>_. \<lparr>main_options = [''version_table'' \<mapsto> ''plugins'']\<rparr>)) \<noteq> Inr 0 \<and>
   main_options (snd (config_migrate no_interpolation sample_manager_percent 0
     (\<lambda>_. \<lparr>main_options = [''version_table'' \<mapsto> ''plugins'']\<rparr>)) 0) ''version_locations'' = None"
proof -
  have get: "get_main_option no_interpolation 0 ''version_table''
     (\<lambda>_. \<lparr>main_options = [''version_table'' \<mapsto> ''plugins'']\<rparr>) = Inr (Some ''plugins'')"
    by (simp add: get_main_option_def)
  have run: "config_migrate no_interpolation sample_manager_percent 0
     (\<lambda>_. \<lparr>main_options = [''version_table'' \<mapsto> ''plugins'']\<rparr>) =
     (Inl ValueError, \<lambda>_. \<lparr>main_options = [''version_table'' \<mapsto> ''plugins'']\<rparr>)"
    by (simp add: config_migrate_def get set_main_option_def Let_def comp_def
        sample_percent_dir [unfolded case_prod_unfold] sample_percent_lone)
  show ?thesis
    using get run by simp
qed

text \<open>
  Claim C6, amended. Let \<open>joined\<close> be the migration version directories of all the
  plugins of the manager, in the order of the dictionary, joined with spaces. When
  \<^verbatim>\<open>get_main_option('version_table')\<close> returns \<^verbatim>\<open>plugins\<close> and \<open>joined\<close> passes
  the check of the parser, \<open>config_migrate\<close> returns the reference it was given and the
  main option \<^verbatim>\<open>version_locations\<close> of that configuration becomes \<open>joined\<close>, nothing
  else changing; when \<open>joined\<close> fails the check, \<^verbatim>\<open>ValueError\<close> is raised and nothing
  changes. When \<^verbatim>\<open>get_main_option\<close> returns anything else, \<open>None\<close> included,
  \<open>config_migrate\<close> returns the reference and the store is left as it was. When it
  raises, the exception is raised and nothing changes. A \<open>joined\<close> without a percent
  sign passes the check; a stored \<^verbatim>\<open>version_table\<close> without a percent sign is
  returned as it is.
\<close>

theorem config_migrate_version_locations:
  "(let joined = str_join '' '' (map (\<lambda>(k, p). get_migration_version_dir p) (all_plugins_dict mgr))
    in config_migrate interpolate mgr c st =
         (case get_main_option interpolate c ''version_table'' st of
            Inl e \<Rightarrow> (Inl e, st)
          | Inr version_table \<Rightarrow>
              if version_table = Some ''plugins''
              then (if lone_percent joined then (Inl ValueError, st)
                    else (Inr c, st(c := (st c)\<lparr>main_options :=
                                     (main_options (st c))(''version_locations'' \<mapsto> joined)\<rparr>)))
              else (Inr c, st)) \<and>
       (CHR ''%'' \<notin> set joined \<longrightarrow> \<not> lone_percent joined)) \<and>
   (main_options (st c) ''version_table'' = None \<longrightarrow>
      get_main_option interpolate c ''version_table'' st = Inr None) \<and>
   (\<forall>v. main_options (st c) ''version_table'' = Some v \<and> CHR ''%'' \<notin> set v \<longrightarrow>
      get_main_option interpolate c ''version_table'' st = Inr (Some v))"
  by (simp add: config_migrate_def set_main_option_def get_main_option_def Let_def
      case_prod_unfold comp_def no_percent_ok split: sum.splits option.splits)

lemma sample_dirs:
  "str_join '' '' (map (\<lambda>(k, p). get_migration_version_dir p) (all_plugins_dict sample_manager))
     = ''/srv/plugins/portal/migration_versions '' @ [CHR 0x22] @
       ''/srv/my plugins/polls/migration_versions'' @ [CHR 0x22]"
  by (simp add: sample_manager_def sample_plugin_def sample_plugin_spaced_def
      get_migration_version_dir_def resource_filename_def os_path_join_def join_step_def
      startswith_sep_def endswith_sep_def)

theorem config_migrate_version_locations_witness:
  "fst (config_migrate no_interpolation sample_manager 0
          (\<lambda>_. \<lparr>main_options = [''version_table'' \<mapsto> ''plugins'']\<rparr>)) = Inr 0 \<and>
   main_options (snd (config_migrate no_interpolation sample_manager 0
          (\<lambda>_. \<lparr>main_options = [''version_table'' \<mapsto> ''plugins'']\<rparr>)) 0) ''version_locations''
     = Some (''/srv/plugins/portal/migration_versions '' @ [CHR 0x22] @
             ''/srv/my plugins/polls/migration_versions'' @ [CHR 0x22]) \<and>
   main_options (snd (config_migrate no_interpolation sample_manager 0
          (\<lambda>_. \<lparr>main_options = [''version_table'' \<mapsto> ''plugins'']\<rparr>)) 0) ''version_table''
     = Some ''plugins'' \<and>
   config_migrate no_interpolation sample_manager 0
     (\<lambda>_. \<lparr>main_options = [''version_table'' \<mapsto> ''alembic_version'']\<rparr>)
     = (Inr 0, \<lambda>_. \<lparr>main_options = [''version_table'' \<mapsto> ''alembic_version'']\<rparr>) \<and>
   config_migrate no_interpolation sample_manager 0 (\<lambda>_. \<lparr>main_options = Map.empty\<rparr>)
     = (Inr 0, \<lambda>_. \<lparr>main_options = Map.empty\<rparr>) \<and>
   config_migrate no_interpolation sample_manager 0
     (\<lambda>_. \<lparr>main_options = [''version_table'' \<mapsto> ''%(table)s'']\<rparr>)
     = (Inl (OtherError ''InterpolationSyntaxError''),
        \<lambda>_. \<lparr>main_options = [''version_table'' \<mapsto> ''%(table)s'']\<rparr>)"
proof -
  have ok: "\<not> lone_percent (''/srv/plugins/portal/migration_versions '' @ [CHR 0x22] @
             ''/srv/my plugins/polls/migration_versions'' @ [CHR 0x22])"
    by (rule no_percent_ok) simp
  have get:
    "get_main_option no_interpolation 0 ''version_table''
       (\<lambda>_. \<lparr>main_options = [''version_table'' \<mapsto> ''plugins'']\<rparr>) = Inr (Some ''plugins'')"
    "get_main_option no_interpolation 0 ''version_table''
       (\<lambda>_. \<lparr>main_options = [''version_table'' \<mapsto> ''alembic_version'']\<rparr>) =
     Inr (Some ''alembic_version'')"
    "get_main_option no_interpolation 0 ''version_table'' (\<lambda>_. \<lparr>main_options = Map.empty\<rparr>) =
     Inr None"
    "get_main_option no_interpolation 0 ''version_table''
       (\<lambda>_. \<lparr>main_options = [''version_table'' \<mapsto> ''%(table)s'']\<rparr>) =
     Inl (OtherError ''InterpolationSyntaxError'')"
    by (simp_all add: get_main_option_def no_interpolation_def)
  show ?thesis
    using config_migrate_version_locations
            [where mgr = sample_manager and interpolate = no_interpolation and c = 0
               and st = "\<lambda>_. \<lparr>main_options = [''version_table'' \<mapsto> ''plugins'']\<rparr>"]
          config_migrate_version_locations
            [where mgr = sample_manager and interpolate = no_interpolation and c = 0
               and st = "\<lambda>_. \<lparr>main_options = [''version_table'' \<mapsto> ''alembic_version'']\<rparr>"]
          config_migrate_version_locations
            [where mgr = sample_manager and interpolate = no_interpolation and c = 0
               and st = "\<lambda>_. \<lparr>main_options = Map.empty\<rparr>"]
          config_migrate_version_locations
            [where mgr = sample_manager and interpolate = no_interpolation and c = 0
               and st = "\<lambda>_. \<lparr>main_options = [''version_table'' \<mapsto> ''%(table)s'']\<rparr>"]
    by (simp add: Let_def sample_dirs get ok)
qed

section \<open>The migration scope: what is proved\<close>

text \<open>
  Claim C4. Entering the context stores the name as \<^verbatim>\<open>g.plugin_name\<close> and changes
  nothing else, so the block starts with the attribute set to the name. When the block
  ends normally, the state after the \<^verbatim>\<open>with\<close> statement is the state the block
  left with \<^verbatim>\<open>plugin_name\<close> removed: the attribute is not there any more. (The
  statement raises \<^verbatim>\<open>AttributeError\<close> when the block itself had removed it.)
\<close>

theorem plugin_name_migrate_normal_exit:
  assumes "body (plugin_name_migrate_enter n s) = (Inr r, s1)"
  shows "plugin_name_migrate_enter n s = s\<lparr>g := (g s)(''plugin_name'' \<mapsto> VStr n)\<rparr> \<and>
         g (plugin_name_migrate_enter n s) ''plugin_name'' = Some (VStr n) \<and>
         snd (with_plugin_name_migrate n body s) = s1\<lparr>g := (g s1)(''plugin_name'' := None)\<rparr> \<and>
         g (snd (with_plugin_name_migrate n body s)) ''plugin_name'' = None \<and>
         fst (with_plugin_name_migrate n body s) =
           (if g s1 ''plugin_name'' = None then Inl AttributeError else Inr r)"
proof -
  have upd: "s1\<lparr>g := (g s1)(''plugin_name'' := None)\<rparr> = s1" if "g s1 ''plugin_name'' = None"
  proof -
    have "(g s1)(''plugin_name'' := None) = g s1"
      using that by (metis fun_upd_triv)
    then show ?thesis by simp
  qed
  show ?thesis
    using assms upd
    by (cases "g s1 ''plugin_name''")
       (simp_all add: with_plugin_name_migrate_def plugin_name_migrate_enter_def
          plugin_name_migrate_resume_def)
qed

theorem plugin_name_migrate_normal_exit_witness:
  "fst (with_plugin_name_migrate ''portal'' body_reads_name \<lparr>g = [''user'' \<mapsto> VStr ''admin'']\<rparr>)
     = Inr (Some (VStr ''portal'')) \<and>
   snd (with_plugin_name_migrate ''portal'' body_reads_name \<lparr>g = [''user'' \<mapsto> VStr ''admin'']\<rparr>)
     = \<lparr>g = [''user'' \<mapsto> VStr ''admin'']\<rparr> \<and>
   fst (with_plugin_name_migrate ''portal'' body_clears_g \<lparr>g = [''user'' \<mapsto> VStr ''admin'']\<rparr>)
     = Inl AttributeError"
proof -
  have run: "body_reads_name (plugin_name_migrate_enter ''portal'' \<lparr>g = [''user'' \<mapsto> VStr ''admin'']\<rparr>)
             = (Inr (Some (VStr ''portal'')),
                \<lparr>g = [''user'' \<mapsto> VStr ''admin'', ''plugin_name'' \<mapsto> VStr ''portal'']\<rparr>)"
    by (simp add: plugin_name_migrate_enter_def body_reads_name_def)
  have run2: "body_clears_g (plugin_name_migrate_enter ''portal'' \<lparr>g = [''user'' \<mapsto> VStr ''admin'']\<rparr>)
             = (Inr (), \<lparr>g = Map.empty\<rparr>)"
    by (simp add: plugin_name_migrate_enter_def body_clears_g_def)
  have m: "[''user'' \<mapsto> VStr ''admin'', ''plugin_name'' \<mapsto> VStr ''portal''](''plugin_name'' := None)
           = [''user'' \<mapsto> VStr ''admin'']"
    by (rule ext) simp
  show ?thesis
    using plugin_name_migrate_normal_exit
            [of body_reads_name "''portal''" "\<lparr>g = [''user'' \<mapsto> VStr ''admin'']\<rparr>", OF run]
          plugin_name_migrate_normal_exit
            [of body_clears_g "''portal''" "\<lparr>g = [''user'' \<mapsto> VStr ''admin'']\<rparr>", OF run2]
          m
    by simp
qed

text \<open>
  Claim C8. When the block raises, the \<^verbatim>\<open>with\<close> statement raises the same
  exception and leaves the state exactly as the block left it: the code after the
  \<^verbatim>\<open>yield\<close> does not run. A block that leaves \<^verbatim>\<open>g.plugin_name\<close> as it found
  it thus leaves it set to the name.
\<close>

theorem plugin_name_migrate_exception_leaks:
  assumes "body (plugin_name_migrate_enter n s) = (Inl e, s1)"
  shows "with_plugin_name_migrate n body s = (Inl e, s1) \<and>
         (g s1 ''plugin_name'' = g (plugin_name_migrate_enter n s) ''plugin_name'' \<longrightarrow>
            g (snd (with_plugin_name_migrate n body s)) ''plugin_name'' = Some (VStr n))"
  using assms
  by (simp add: with_plugin_name_migrate_def plugin_name_migrate_enter_def)

theorem plugin_name_migrate_exception_leaks_witness:
  "with_plugin_name_migrate ''portal'' body_raises \<lparr>g = Map.empty\<rparr>
     = (Inl (OtherError ''no such revision''), \<lparr>g = [''plugin_name'' \<mapsto> VStr ''portal'']\<rparr>) \<and>
   g (snd (with_plugin_name_migrate ''portal'' body_raises \<lparr>g = Map.empty\<rparr>)) ''plugin_name''
     = Some (VStr ''portal'')"
proof -
  have run: "body_raises (plugin_name_migrate_enter ''portal'' \<lparr>g = Map.empty\<rparr>)
             = (Inl (OtherError ''no such revision''), \<lparr>g = [''plugin_name'' \<mapsto> VStr ''portal'']\<rparr>)"
    by (simp add: plugin_name_migrate_enter_def body_raises_def)
  show ?thesis
    using plugin_name_migrate_exception_leaks
            [of body_raises "''portal''" "\<lparr>g = Map.empty\<rparr>", OF run]
    by (simp add: plugin_name_migrate_enter_def)
qed

section \<open>Tables tagged with their plugin: what is proved\<close>

lemma db_for_plugin_unfold:
  "db_for_plugin db n inst h =
     (next_addr h,
      h\<lparr>cells := (cells h)(next_addr h :=
            (cells h (case inst of None \<Rightarrow> db | Some a \<Rightarrow> a))
              (''Table'' \<mapsto> VTableClosure n (case inst of None \<Rightarrow> db | Some a \<Rightarrow> a))),
        next_addr := Suc (next_addr h)\<rparr>)"
  by (simp add: db_for_plugin_def copy_copy_def setattr_def Let_def)

text \<open>
  Claim C1. Let \<open>new_db\<close> be what \<open>db_for_plugin\<close> returns for the plugin name \<open>n\<close>.
  For all arguments, \<^verbatim>\<open>new_db.Table\<close> does what \<^verbatim>\<open>sqla_instance.Table\<close> does
  on them, one frame deeper, and then sets \<^verbatim>\<open>_plugin\<close> of the table to \<open>n\<close>: an
  exception of \<^verbatim>\<open>sqla_instance.Table\<close> passes through; a table it returns is
  returned, with all that it did to the heap, the attribute \<^verbatim>\<open>_plugin\<close> of that
  table now \<open>n\<close> and nothing else touched. \<^verbatim>\<open>sqla_instance.Table\<close> is the callable
  it was before \<open>db_for_plugin\<close>.
\<close>

theorem db_for_plugin_Table_tags:
  assumes "db_for_plugin db n inst h = (new_db, h')"
  shows "call_Table ext (Suc depth) new_db args h' =
           (case call_Table ext depth (case inst of None \<Rightarrow> db | Some a \<Rightarrow> a) args h' of
              (Inl e, h1) \<Rightarrow> (Inl e, h1)
            | (Inr t, h1) \<Rightarrow> (Inr t, setattr t ''_plugin'' (VStr n) h1)) \<and>
         (\<forall>t h1. call_Table ext depth (case inst of None \<Rightarrow> db | Some a \<Rightarrow> a) args h' = (Inr t, h1) \<longrightarrow>
            (\<exists>h2. call_Table ext (Suc depth) new_db args h' = (Inr t, h2) \<and>
                  cells h2 t ''_plugin'' = Some (VStr n) \<and>
                  (\<forall>b k. (b, k) \<noteq> (t, ''_plugin'') \<longrightarrow> cells h2 b k = cells h1 b k) \<and>
                  next_addr h2 = next_addr h1)) \<and>
         ((case inst of None \<Rightarrow> db | Some a \<Rightarrow> a) < next_addr h \<longrightarrow>
            getattr (case inst of None \<Rightarrow> db | Some a \<Rightarrow> a) ''Table'' h' =
            getattr (case inst of None \<Rightarrow> db | Some a \<Rightarrow> a) ''Table'' h)"
proof -
  define a where "a = (case inst of None \<Rightarrow> db | Some a \<Rightarrow> a)"
  have new: "new_db = next_addr h"
    and h': "h' = h\<lparr>cells := (cells h)(next_addr h := (cells h a)(''Table'' \<mapsto> VTableClosure n a)),
                    next_addr := Suc (next_addr h)\<rparr>"
    using assms by (auto simp: db_for_plugin_unfold a_def)
  have look: "getattr new_db ''Table'' h' = Inr (VTableClosure n a)"
    by (simp add: getattr_def new h')
  have eq: "call_Table ext (Suc depth) new_db args h' =
           (case call_Table ext depth a args h' of
              (Inl e, h1) \<Rightarrow> (Inl e, h1)
            | (Inr t, h1) \<Rightarrow> (Inr t, setattr t ''_plugin'' (VStr n) h1))"
    by (simp add: call_Table_def look Table_def split: sum.splits prod.splits)
  have tag: "\<exists>h2. call_Table ext (Suc depth) new_db args h' = (Inr t, h2) \<and>
                  cells h2 t ''_plugin'' = Some (VStr n) \<and>
                  (\<forall>b k. (b, k) \<noteq> (t, ''_plugin'') \<longrightarrow> cells h2 b k = cells h1 b k) \<and>
                  next_addr h2 = next_addr h1"
    if "call_Table ext depth a args h' = (Inr t, h1)" for t h1
    using that by (simp add: eq setattr_def)
  have same: "getattr a ''Table'' h' = getattr a ''Table'' h" if "a < next_addr h"
    using that by (simp add: getattr_def h')
  show ?thesis
    using eq tag same unfolding a_def by blast
qed

theorem db_for_plugin_Table_tags_witness:
  "fst (db_for_plugin 0 ''portal'' (Some 0) sample_heap) = 1 \<and>
   fst (call_Table sample_orm (Suc 0) 0 ''polls'' (snd (db_for_plugin 0 ''portal'' (Some 0) sample_heap)))
     = Inr 2 \<and>
   cells (snd (call_Table sample_orm (Suc 0) 0 ''polls''
                 (snd (db_for_plugin 0 ''portal'' (Some 0) sample_heap)))) 2 ''_plugin'' = None \<and>
   fst (call_Table sample_orm (Suc (Suc 0)) 1 ''polls'' (snd (db_for_plugin 0 ''portal'' (Some 0) sample_heap)))
     = Inr 2 \<and>
   cells (snd (call_Table sample_orm (Suc (Suc 0)) 1 ''polls''
                 (snd (db_for_plugin 0 ''portal'' (Some 0) sample_heap)))) 2 ''_plugin''
     = Some (VStr ''portal'') \<and>
   cells (snd (call_Table sample_orm (Suc (Suc 0)) 1 ''polls''
                 (snd (db_for_plugin 0 ''portal'' (Some 0) sample_heap)))) 2 ''name''
     = Some (VStr ''polls'')"
proof -
  have run: "db_for_plugin 0 ''portal'' (Some 0) sample_heap =
               (1, snd (db_for_plugin 0 ''portal'' (Some 0) sample_heap))"
    by (simp add: db_for_plugin_unfold sample_heap_def)
  have orig: "call_Table sample_orm (Suc 0) 0 ''polls'' (snd (db_for_plugin 0 ''portal'' (Some 0) sample_heap))
      = (Inr 2, (snd (db_for_plugin 0 ''portal'' (Some 0) sample_heap))
                  \<lparr>cells := (cells (snd (db_for_plugin 0 ''portal'' (Some 0) sample_heap)))
                              (2 := [''name'' \<mapsto> VStr ''polls'']),
                    next_addr := 3\<rparr>)"
    by (simp add: db_for_plugin_unfold sample_heap_def call_Table_def getattr_def sample_orm_def
        numeral_2_eq_2 numeral_3_eq_3)
  show ?thesis
    using db_for_plugin_Table_tags [OF run, of sample_orm "Suc 0" "''polls''"] orig
    by (simp add: setattr_def db_for_plugin_unfold sample_heap_def numeral_2_eq_2)
qed

text \<open>
  Claim C10. \<open>db_for_plugin\<close> changes no object that was there: the returned object is
  new, and every other object, the instance it was given among them, keeps all its
  attributes, \<^verbatim>\<open>Table\<close> included. The new object has the attributes of the instance,
  with the same values, except \<^verbatim>\<open>Table\<close>, which is the closure.
\<close>

theorem db_for_plugin_frame:
  assumes "db_for_plugin db n inst h = (new_db, h')"
  shows "new_db = next_addr h \<and> next_addr h' = Suc (next_addr h) \<and>
         (\<forall>b. b \<noteq> new_db \<longrightarrow> cells h' b = cells h b) \<and>
         ((case inst of None \<Rightarrow> db | Some a \<Rightarrow> a) < next_addr h \<longrightarrow>
            cells h' (case inst of None \<Rightarrow> db | Some a \<Rightarrow> a) =
            cells h (case inst of None \<Rightarrow> db | Some a \<Rightarrow> a) \<and>
            getattr (case inst of None \<Rightarrow> db | Some a \<Rightarrow> a) ''Table'' h' =
            getattr (case inst of None \<Rightarrow> db | Some a \<Rightarrow> a) ''Table'' h) \<and>
         cells h' new_db =
           (cells h (case inst of None \<Rightarrow> db | Some a \<Rightarrow> a))
             (''Table'' \<mapsto> VTableClosure n (case inst of None \<Rightarrow> db | Some a \<Rightarrow> a)) \<and>
         (\<forall>k. k \<noteq> ''Table'' \<longrightarrow>
            cells h' new_db k = cells h (case inst of None \<Rightarrow> db | Some a \<Rightarrow> a) k)"
  using assms by (auto simp: db_for_plugin_unfold getattr_def)

theorem db_for_plugin_frame_witness:
  "fst (db_for_plugin 0 ''portal'' None sample_heap) = 1 \<and>
   (0::nat) < next_addr sample_heap \<and>
   cells (snd (db_for_plugin 0 ''portal'' None sample_heap)) 0 = cells sample_heap 0 \<and>
   getattr 0 ''Table'' (snd (db_for_plugin 0 ''portal'' None sample_heap)) = Inr (VExtern 0) \<and>
   getattr 1 ''Table'' (snd (db_for_plugin 0 ''portal'' None sample_heap)) = Inr (VTableClosure ''portal'' 0) \<and>
   getattr 1 ''Model'' (snd (db_for_plugin 0 ''portal'' None sample_heap)) = Inr (VExtern 1)"
proof -
  have run: "db_for_plugin 0 ''portal'' None sample_heap =
               (1, snd (db_for_plugin 0 ''portal'' None sample_heap))"
    by (simp add: db_for_plugin_unfold sample_heap_def)
  show ?thesis
    using db_for_plugin_frame [OF run]
    by (simp add: sample_heap_def getattr_def db_for_plugin_unfold)
qed

section \<open>Loading the plugins: what is proved\<close>

text \<open>The four ways the loop treats a package, one equation each.\<close>

lemma enabled_case:
  "(case get_data_DISABLED pkg of Data x \<Rightarrow> False | RaisesIOError \<Rightarrow> True) = enabled pkg"
  by (cases "get_data_DISABLED pkg") (simp_all add: enabled_def)

lemma load_loop_skip:
  "dunder_plugin pkg = None \<Longrightarrow> load_loop ((pkgname, pkg) # rest) self = load_loop rest self"
  by simp

lemma load_loop_missing:
  "dunder_plugin pkg = Some cn \<Longrightarrow> pkg_getattr pkg cn = None \<Longrightarrow>
   load_loop ((pkgname, pkg) # rest) self =
     (Inl (PluginError (import_error_message cn)),
      self\<lparr>found_plugins_dict := AList.update cn pkgname (found_plugins_dict self)\<rparr>)"
  by simp

lemma load_loop_raises:
  "dunder_plugin pkg = Some cn \<Longrightarrow> pkg_getattr pkg cn = Some cls \<Longrightarrow>
   cls (fst (os_path_split (get_filename pkg))) = Inl e \<Longrightarrow>
   load_loop ((pkgname, pkg) # rest) self =
     (Inl e, self\<lparr>found_plugins_dict := AList.update cn pkgname (found_plugins_dict self)\<rparr>)"
  by simp

lemma load_loop_valid:
  "dunder_plugin pkg = Some cn \<Longrightarrow> pkg_getattr pkg cn = Some cls \<Longrightarrow>
   cls (fst (os_path_split (get_filename pkg))) = Inr i \<Longrightarrow>
   load_loop ((pkgname, pkg) # rest) self =
     load_loop rest
       (self\<lparr>found_plugins_dict := AList.update cn pkgname (found_plugins_dict self),
             plugins_dict := (if enabled pkg then AList.update (identifier' i) i (plugins_dict self)
                              else plugins_dict self),
             all_plugins_dict := AList.update (identifier' i) i (all_plugins_dict self)\<rparr>)"
  by (simp add: enabled_case Let_def)

lemma load_loop_append:
  "load_loop (pre @ post) self =
     (case load_loop pre self of
        (Inl e, self') \<Rightarrow> (Inl e, self')
      | (Inr u, self1) \<Rightarrow> load_loop post self1)"
proof (induction pre arbitrary: self)
  case Nil
  then show ?case by simp
next
  case (Cons np pre)
  obtain pkgname pkg where np: "np = (pkgname, pkg)" by (cases np)
  show ?case
  proof (cases "dunder_plugin pkg")
    case None
    then show ?thesis using Cons np by (simp del: load_loop.simps add: load_loop_skip)
  next
    case (Some cn)
    show ?thesis
    proof (cases "pkg_getattr pkg cn")
      case None
      with Some np show ?thesis by (simp del: load_loop.simps add: load_loop_missing)
    next
      case cls: (Some cls)
      show ?thesis
      proof (cases "cls (fst (os_path_split (get_filename pkg)))")
        case (Inl e)
        with Some cls np show ?thesis by (simp del: load_loop.simps add: load_loop_raises)
      next
        case (Inr i)
        with Some cls np Cons show ?thesis by (simp del: load_loop.simps add: load_loop_valid)
      qed
    qed
  qed
qed


lemma package_cases [case_names skip missing raises valid]:
  assumes "dunder_plugin pkg = None \<Longrightarrow> P"
    and "\<And>cn. dunder_plugin pkg = Some cn \<Longrightarrow> pkg_getattr pkg cn = None \<Longrightarrow> P"
    and "\<And>cn cls e. dunder_plugin pkg = Some cn \<Longrightarrow> pkg_getattr pkg cn = Some cls \<Longrightarrow>
           cls (fst (os_path_split (get_filename pkg))) = Inl e \<Longrightarrow> P"
    and "\<And>cn cls i. dunder_plugin pkg = Some cn \<Longrightarrow> pkg_getattr pkg cn = Some cls \<Longrightarrow>
           cls (fst (os_path_split (get_filename pkg))) = Inr i \<Longrightarrow> P"
  shows P
proof (cases "dunder_plugin pkg")
  case None
  then show ?thesis by (rule assms(1))
next
  case (Some cn)
  show ?thesis
  proof (cases "pkg_getattr pkg cn")
    case None
    with Some show ?thesis by (rule assms(2))
  next
    case cls: (Some cls)
    show ?thesis
      by (cases "cls (fst (os_path_split (get_filename pkg)))")
         (blast intro: assms(3) [OF Some cls] assms(4) [OF Some cls])+
  qed
qed

lemma identifiers_of_Nil: "identifiers_of [] = []"
  by (simp add: identifiers_of_def map_filter_simps)

lemma identifiers_of_Cons:
  "identifiers_of ((pkgname, pkg) # rest) =
     (case plugin_instance_of pkg of
        None \<Rightarrow> identifiers_of rest
      | Some i \<Rightarrow> identifier' i # identifiers_of rest)"
  by (simp add: identifiers_of_def map_filter_simps split: option.splits)

lemma identifiers_of_append:
  "identifiers_of (xs @ ys) = identifiers_of xs @ identifiers_of ys"
  by (induction xs) (auto simp: identifiers_of_Nil identifiers_of_Cons split: option.splits)

lemma load_loop_all_plugins_other:
  "load_loop post self = (r, self') \<Longrightarrow> k \<notin> set (identifiers_of post) \<Longrightarrow>
   map_of (all_plugins_dict self') k = map_of (all_plugins_dict self) k"
proof (induction post arbitrary: self)
  case Nil
  then show ?case by simp
next
  case (Cons np post)
  obtain pkgname pkg where np: "np = (pkgname, pkg)" by (cases np)
  have run: "load_loop ((pkgname, pkg) # post) self = (r, self')"
    using Cons.prems(1) np by simp
  have ids: "k \<notin> set (identifiers_of ((pkgname, pkg) # post))"
    using Cons.prems(2) np by simp
  show ?case
  proof (cases pkg rule: package_cases)
    case skip
    have "load_loop post self = (r, self')"
      using run by (simp only: load_loop_skip [OF skip])
    moreover have "k \<notin> set (identifiers_of post)"
      using ids skip by (simp add: identifiers_of_Cons plugin_instance_of_def)
    ultimately show ?thesis by (rule Cons.IH)
  next
    case (missing cn)
    have "self' = self\<lparr>found_plugins_dict := AList.update cn pkgname (found_plugins_dict self)\<rparr>"
      using run by (simp only: load_loop_missing [OF missing] prod.inject)
    then show ?thesis by simp
  next
    case (raises cn cls e)
    have "self' = self\<lparr>found_plugins_dict := AList.update cn pkgname (found_plugins_dict self)\<rparr>"
      using run by (simp only: load_loop_raises [OF raises] prod.inject)
    then show ?thesis by simp
  next
    case (valid cn cls i)
    then have inst: "plugin_instance_of pkg = Some i"
      by (simp add: plugin_instance_of_def)
    have k: "k \<noteq> identifier' i" "k \<notin> set (identifiers_of post)"
      using ids inst by (simp_all add: identifiers_of_Cons)
    have "load_loop post
       (self\<lparr>found_plugins_dict := AList.update cn pkgname (found_plugins_dict self),
             plugins_dict := (if enabled pkg then AList.update (identifier' i) i (plugins_dict self)
                              else plugins_dict self),
             all_plugins_dict := AList.update (identifier' i) i (all_plugins_dict self)\<rparr>) = (r, self')"
      using run by (simp only: load_loop_valid [OF valid])
    from Cons.IH [OF this k(2)] k(1) show ?thesis
      by (simp add: update_conv')
  qed
qed

lemma load_loop_plugins_other:
  "load_loop post self = (r, self') \<Longrightarrow>
   k \<notin> set (identifiers_of (filter (\<lambda>(pkgname, pkg). enabled pkg) post)) \<Longrightarrow>
   map_of (plugins_dict self') k = map_of (plugins_dict self) k"
proof (induction post arbitrary: self)
  case Nil
  then show ?case by simp
next
  case (Cons np post)
  obtain pkgname pkg where np: "np = (pkgname, pkg)" by (cases np)
  have run: "load_loop ((pkgname, pkg) # post) self = (r, self')"
    using Cons.prems(1) np by simp
  have ids: "k \<notin> set (identifiers_of (filter (\<lambda>(pkgname, pkg). enabled pkg) ((pkgname, pkg) # post)))"
    using Cons.prems(2) np by simp
  have rest: "k \<notin> set (identifiers_of (filter (\<lambda>(pkgname, pkg). enabled pkg) post))"
    using ids by (cases "enabled pkg"; cases "plugin_instance_of pkg") (simp_all add: identifiers_of_Cons)
  show ?case
  proof (cases pkg rule: package_cases)
    case skip
    have "load_loop post self = (r, self')"
      using run by (simp only: load_loop_skip [OF skip])
    then show ?thesis using rest by (rule Cons.IH)
  next
    case (missing cn)
    have "self' = self\<lparr>found_plugins_dict := AList.update cn pkgname (found_plugins_dict self)\<rparr>"
      using run by (simp only: load_loop_missing [OF missing] prod.inject)
    then show ?thesis by simp
  next
    case (raises cn cls e)
    have "self' = self\<lparr>found_plugins_dict := AList.update cn pkgname (found_plugins_dict self)\<rparr>"
      using run by (simp only: load_loop_raises [OF raises] prod.inject)
    then show ?thesis by simp
  next
    case (valid cn cls i)
    then have inst: "plugin_instance_of pkg = Some i"
      by (simp add: plugin_instance_of_def)
    have k: "k \<noteq> identifier' i" if "enabled pkg"
      using ids inst that by (simp add: identifiers_of_Cons)
    have "load_loop post
       (self\<lparr>found_plugins_dict := AList.update cn pkgname (found_plugins_dict self),
             plugins_dict := (if enabled pkg then AList.update (identifier' i) i (plugins_dict self)
                              else plugins_dict self),
             all_plugins_dict := AList.update (identifier' i) i (all_plugins_dict self)\<rparr>) = (r, self')"
      using run by (simp only: load_loop_valid [OF valid])
    from Cons.IH [OF this rest] k show ?thesis
      by (simp add: update_conv')
  qed
qed

lemma load_loop_plugins_only:
  "plugins_dict self = plugins_dict other \<Longrightarrow>
   fst (load_loop post self) = fst (load_loop post other) \<and>
   plugins_dict (snd (load_loop post self)) = plugins_dict (snd (load_loop post other))"
proof (induction post arbitrary: self other)
  case Nil
  then show ?case by simp
next
  case (Cons np post)
  obtain pkgname pkg where np: "np = (pkgname, pkg)" by (cases np)
  show ?case
  proof (cases pkg rule: package_cases)
    case skip
    show ?thesis
      unfolding np load_loop_skip [OF skip] using Cons.prems by (rule Cons.IH)
  next
    case (missing cn)
    show ?thesis
      unfolding np load_loop_missing [OF missing] using Cons.prems by simp
  next
    case (raises cn cls e)
    show ?thesis
      unfolding np load_loop_raises [OF raises] using Cons.prems by simp
  next
    case (valid cn cls i)
    show ?thesis
      unfolding np load_loop_valid [OF valid]
      by (rule Cons.IH) (simp add: Cons.prems)
  qed
qed

text \<open>What \<open>load_plugins\<close> adds to the loop.\<close>

lemma snd_load_plugins:
  "snd (load_plugins pluginmodules self) =
   snd (load_loop pluginmodules (self\<lparr>plugins_dict := [], all_plugins_dict := []\<rparr>))"
  by (simp add: load_plugins_def split: prod.splits sum.splits)

lemma load_plugins_any_result:
  "load_plugins pluginmodules self = (r, self') \<Longrightarrow>
   \<exists>r'. load_loop pluginmodules (self\<lparr>plugins_dict := [], all_plugins_dict := []\<rparr>) = (r', self')"
  by (auto simp: load_plugins_def split: prod.splits sum.splits)

text \<open>Evaluating the loop on the sample packages.\<close>

lemma sample_plugin_paths:
  "fst (os_path_split ''/srv/plugins/portal/__init__.py'') = ''/srv/plugins/portal''"
  "fst (os_path_split ''/srv/plugins/portal_old/__init__.py'') = ''/srv/plugins/portal_old''"
  by (simp_all add: os_path_split_def rstrip_sep_def Let_def)

lemma sample_load_raising:
  "load_plugins
     [(''flaskbb.plugins.helpers'', sample_pkg_helpers),
      (''flaskbb.plugins.portal'', sample_pkg_portal),
      (''flaskbb.plugins.portal_old'', sample_pkg_portal_old),
      (''flaskbb.plugins.polls'', sample_pkg_broken)] sample_manager =
   (Inl (PluginError (import_error_message ''PollsPlugin'')),
    \<lparr>plugins_dict =
       [(''portal'', \<lparr>identifier' = ''portal'', path = ''/srv/plugins/portal'',
                       settings_key = Some ''portal''\<rparr>)],
     all_plugins_dict =
       [(''portal'', \<lparr>identifier' = ''portal'', path = ''/srv/plugins/portal_old'',
                       settings_key = Some ''portal''\<rparr>)],
     found_plugins_dict =
       [(''PortalPlugin'', ''flaskbb.plugins.portal_old''),
        (''PollsPlugin'', ''flaskbb.plugins.polls'')],
     plugin_folder = ''/srv/plugins''\<rparr>)"
  by (simp add: load_plugins_def sample_manager_def sample_pkg_helpers_def sample_pkg_portal_def
      sample_pkg_portal_old_def sample_pkg_broken_def portal_class_def sample_plugin_paths Let_def)

lemma sample_load_disabled_only:
  "load_plugins
     [(''flaskbb.plugins.helpers'', sample_pkg_helpers),
      (''flaskbb.plugins.portal_old'', sample_pkg_portal_old)] sample_manager =
   (Inr [(''PortalPlugin'', ''flaskbb.plugins.portal_old'')],
    \<lparr>plugins_dict = [],
     all_plugins_dict =
       [(''portal'', \<lparr>identifier' = ''portal'', path = ''/srv/plugins/portal_old'',
                       settings_key = Some ''portal''\<rparr>)],
     found_plugins_dict = [(''PortalPlugin'', ''flaskbb.plugins.portal_old'')],
     plugin_folder = ''/srv/plugins''\<rparr>)"
  by (simp add: load_plugins_def sample_manager_def sample_pkg_helpers_def
      sample_pkg_portal_old_def portal_class_def sample_plugin_paths Let_def)

lemma sample_load_two:
  "load_plugins
     [(''flaskbb.plugins.portal'', sample_pkg_portal),
      (''flaskbb.plugins.portal_old'', sample_pkg_portal_old)] sample_manager =
   (Inr [(''PortalPlugin'', ''flaskbb.plugins.portal_old'')],
    \<lparr>plugins_dict =
       [(''portal'', \<lparr>identifier' = ''portal'', path = ''/srv/plugins/portal'',
                       settings_key = Some ''portal''\<rparr>)],
     all_plugins_dict =
       [(''portal'', \<lparr>identifier' = ''portal'', path = ''/srv/plugins/portal_old'',
                       settings_key = Some ''portal''\<rparr>)],
     found_plugins_dict = [(''PortalPlugin'', ''flaskbb.plugins.portal_old'')],
     plugin_folder = ''/srv/plugins''\<rparr>)"
  by (simp add: load_plugins_def sample_manager_def sample_pkg_portal_def
      sample_pkg_portal_old_def portal_class_def sample_plugin_paths)

text \<open>
  Claim C2, as stated, fails: \<open>portal\<close> defines a valid plugin class and
  \<open>load_plugins\<close> returns normally, yet its plugin is not in \<^verbatim>\<open>_all_plugins\<close>
  afterwards, under its identifier or any other: \<open>portal_old\<close>, scanned after it,
  yields a plugin with the same identifier, which took its place.
\<close>

theorem load_plugins_same_identifier_counterexample:
  "dunder_plugin sample_pkg_portal = Some ''PortalPlugin'' \<and>
   pkg_getattr sample_pkg_portal ''PortalPlugin'' = Some portal_class \<and>
   portal_class (fst (os_path_split (get_filename sample_pkg_portal))) =
     Inr \<lparr>identifier' = ''portal'', path = ''/srv/plugins/portal'', settings_key = Some ''portal''\<rparr> \<and>
   fst (load_plugins
          [(''flaskbb.plugins.portal'', sample_pkg_portal),
           (''flaskbb.plugins.portal_old'', sample_pkg_portal_old)] sample_manager) =
     Inr [(''PortalPlugin'', ''flaskbb.plugins.portal_old'')] \<and>
   map_of (all_plugins_dict (snd (load_plugins
          [(''flaskbb.plugins.portal'', sample_pkg_portal),
           (''flaskbb.plugins.portal_old'', sample_pkg_portal_old)] sample_manager))) ''portal'' \<noteq>
     Some \<lparr>identifier' = ''portal'', path = ''/srv/plugins/portal'', settings_key = Some ''portal''\<rparr> \<and>
   \<lparr>identifier' = ''portal'', path = ''/srv/plugins/portal'', settings_key = Some ''portal''\<rparr> \<notin>
     snd ` set (all_plugins_dict (snd (load_plugins
          [(''flaskbb.plugins.portal'', sample_pkg_portal),
           (''flaskbb.plugins.portal_old'', sample_pkg_portal_old)] sample_manager)))"
  by (simp add: sample_load_two)
     (simp add: sample_pkg_portal_def portal_class_def sample_plugin_paths)

text \<open>
  Claim C2, amended. Whenever the loop of \<open>load_plugins\<close> reaches a scanned package
  that defines a valid \<^verbatim>\<open>__plugin__\<close> class (the packages before it raised nothing),
  and whether \<open>load_plugins\<close> then returns or a later package makes it raise:
  \<^item> the instantiated plugin is the entry of \<^verbatim>\<open>_all_plugins\<close> at its identifier,
    unless a package scanned later yields a plugin with the same identifier;
  \<^item> it is the entry of \<^verbatim>\<open>_plugins\<close> at its identifier when the package is enabled
    and no enabled package scanned later yields a plugin with the same identifier;
  \<^item> when the package is not enabled, \<^verbatim>\<open>_plugins\<close> has no entry at its identifier
    unless another, enabled, scanned package yields a plugin with that identifier, and
    \<^verbatim>\<open>_plugins\<close> is what it would be had the package not been scanned;
  \<^item> \<^verbatim>\<open>_plugins\<close> has an entry at an identifier only if an enabled scanned package
    yields a plugin with it: what the dictionary held before the call is gone.
\<close>

theorem load_plugins_records:
  assumes "load_loop pre (self\<lparr>plugins_dict := [], all_plugins_dict := []\<rparr>) = (Inr (), self1)"
    and "load_plugins (pre @ (pkgname, pkg) # post) self = (r, self')"
    and "dunder_plugin pkg = Some class_name"
    and "pkg_getattr pkg class_name = Some plugin_class"
    and "plugin_class (fst (os_path_split (get_filename pkg))) = Inr plugin_instance"
  shows "(identifier' plugin_instance \<notin> set (identifiers_of post) \<longrightarrow>
            map_of (all_plugins_dict self') (identifier' plugin_instance) = Some plugin_instance) \<and>
         (enabled pkg \<and>
          identifier' plugin_instance \<notin>
            set (identifiers_of (filter (\<lambda>(pkgname, pkg). enabled pkg) post)) \<longrightarrow>
            map_of (plugins_dict self') (identifier' plugin_instance) = Some plugin_instance) \<and>
         (\<not> enabled pkg \<and>
          identifier' plugin_instance \<notin>
            set (identifiers_of (filter (\<lambda>(pkgname, pkg). enabled pkg) (pre @ post))) \<longrightarrow>
            map_of (plugins_dict self') (identifier' plugin_instance) = None) \<and>
         (\<not> enabled pkg \<longrightarrow>
            plugins_dict self' = plugins_dict (snd (load_plugins (pre @ post) self))) \<and>
         (\<forall>k. k \<notin> set (identifiers_of (filter (\<lambda>(pkgname, pkg). enabled pkg)
                                          (pre @ (pkgname, pkg) # post))) \<longrightarrow>
              map_of (plugins_dict self') k = None)"
proof -
  define start where "start = self\<lparr>plugins_dict := [], all_plugins_dict := []\<rparr>"
  have pre: "load_loop pre start = (Inr (), self1)"
    using assms(1) by (simp add: start_def)
  obtain r' where whole: "load_loop (pre @ (pkgname, pkg) # post) start = (r', self')"
    using load_plugins_any_result [OF assms(2)] unfolding start_def by blast
  have step: "load_loop ((pkgname, pkg) # post) self1 = (r', self')"
    using whole pre by (simp add: load_loop_append del: load_loop.simps)
  define self3 where "self3 =
     self1\<lparr>found_plugins_dict := AList.update class_name pkgname (found_plugins_dict self1),
            plugins_dict := (if enabled pkg
                             then AList.update (identifier' plugin_instance) plugin_instance
                                    (plugins_dict self1)
                             else plugins_dict self1),
            all_plugins_dict := AList.update (identifier' plugin_instance) plugin_instance
                                  (all_plugins_dict self1)\<rparr>"
  have rest: "load_loop post self3 = (r', self')"
    using step unfolding self3_def by (simp only: load_loop_valid [OF assms(3,4,5)])
  have all: "map_of (all_plugins_dict self') (identifier' plugin_instance) = Some plugin_instance"
    if "identifier' plugin_instance \<notin> set (identifiers_of post)"
    using load_loop_all_plugins_other [OF rest that] by (simp add: self3_def update_conv')
  have some: "map_of (plugins_dict self') (identifier' plugin_instance) = Some plugin_instance"
    if "enabled pkg"
      and "identifier' plugin_instance \<notin>
             set (identifiers_of (filter (\<lambda>(pkgname, pkg). enabled pkg) post))"
    using load_loop_plugins_other [OF rest that(2)] that(1) by (simp add: self3_def update_conv')
  have absent: "map_of (plugins_dict self') k = None"
    if "k \<notin> set (identifiers_of (filter (\<lambda>(pkgname, pkg). enabled pkg)
                                     (pre @ (pkgname, pkg) # post)))" for k
    using load_loop_plugins_other [OF whole that] by (simp add: start_def)
  have absent_disabled: "map_of (plugins_dict self') (identifier' plugin_instance) = None"
    if "\<not> enabled pkg"
      and "identifier' plugin_instance \<notin>
             set (identifiers_of (filter (\<lambda>(pkgname, pkg). enabled pkg) (pre @ post)))"
    using that by (intro absent) (simp add: identifiers_of_append)
  have none: "plugins_dict self' = plugins_dict (snd (load_plugins (pre @ post) self))"
    if "\<not> enabled pkg"
  proof -
    have same: "plugins_dict self3 = plugins_dict self1"
      using that by (simp add: self3_def)
    have "load_loop (pre @ post) start = load_loop post self1"
      using pre by (simp add: load_loop_append)
    then have "plugins_dict (snd (load_plugins (pre @ post) self)) =
               plugins_dict (snd (load_loop post self1))"
      by (simp add: snd_load_plugins start_def)
    also have "\<dots> = plugins_dict (snd (load_loop post self3))"
      using load_loop_plugins_only [OF same, of post] by simp
    also have "\<dots> = plugins_dict self'"
      using rest by simp
    finally show ?thesis by simp
  qed
  show ?thesis
    using all some absent absent_disabled none by blast
qed

theorem load_plugins_records_witness:
  "fst (load_plugins
          [(''flaskbb.plugins.helpers'', sample_pkg_helpers),
           (''flaskbb.plugins.portal'', sample_pkg_portal),
           (''flaskbb.plugins.portal_old'', sample_pkg_portal_old),
           (''flaskbb.plugins.polls'', sample_pkg_broken)] sample_manager) =
     Inl (PluginError (import_error_message ''PollsPlugin'')) \<and>
   enabled sample_pkg_portal \<and> \<not> enabled sample_pkg_portal_old \<and>
   map_of (plugins_dict (snd (load_plugins
          [(''flaskbb.plugins.helpers'', sample_pkg_helpers),
           (''flaskbb.plugins.portal'', sample_pkg_portal),
           (''flaskbb.plugins.portal_old'', sample_pkg_portal_old),
           (''flaskbb.plugins.polls'', sample_pkg_broken)] sample_manager))) ''portal'' =
     Some \<lparr>identifier' = ''portal'', path = ''/srv/plugins/portal'', settings_key = Some ''portal''\<rparr> \<and>
   map_of (all_plugins_dict (snd (load_plugins
          [(''flaskbb.plugins.helpers'', sample_pkg_helpers),
           (''flaskbb.plugins.portal'', sample_pkg_portal),
           (''flaskbb.plugins.portal_old'', sample_pkg_portal_old),
           (''flaskbb.plugins.polls'', sample_pkg_broken)] sample_manager))) ''portal'' =
     Some \<lparr>identifier' = ''portal'', path = ''/srv/plugins/portal_old'', settings_key = Some ''portal''\<rparr> \<and>
   fst (load_plugins
          [(''flaskbb.plugins.helpers'', sample_pkg_helpers),
           (''flaskbb.plugins.portal_old'', sample_pkg_portal_old)] sample_manager) =
     Inr [(''PortalPlugin'', ''flaskbb.plugins.portal_old'')] \<and>
   map_of (plugins_dict sample_manager) ''portal'' = Some sample_plugin \<and>
   map_of (plugins_dict (snd (load_plugins
          [(''flaskbb.plugins.helpers'', sample_pkg_helpers),
           (''flaskbb.plugins.portal_old'', sample_pkg_portal_old)] sample_manager))) ''portal'' = None \<and>
   map_of (all_plugins_dict (snd (load_plugins
          [(''flaskbb.plugins.helpers'', sample_pkg_helpers),
           (''flaskbb.plugins.portal_old'', sample_pkg_portal_old)] sample_manager))) ''portal'' =
     Some \<lparr>identifier' = ''portal'', path = ''/srv/plugins/portal_old'', settings_key = Some ''portal''\<rparr>"
proof -
  let ?helpers = "(''flaskbb.plugins.helpers'', sample_pkg_helpers)"
  let ?portal = "(''flaskbb.plugins.portal'', sample_pkg_portal)"
  let ?old = "(''flaskbb.plugins.portal_old'', sample_pkg_portal_old)"
  let ?polls = "(''flaskbb.plugins.polls'', sample_pkg_broken)"
  let ?start = "sample_manager\<lparr>plugins_dict := [], all_plugins_dict := []\<rparr>"
  let ?P = "\<lparr>identifier' = ''portal'', path = ''/srv/plugins/portal'', settings_key = Some ''portal''\<rparr>"
  have reach1: "load_loop [?helpers] ?start = (Inr (), ?start)"
    by (simp add: sample_pkg_helpers_def)
  have reach2: "load_loop [?helpers, ?portal] ?start =
      (Inr (), \<lparr>plugins_dict = [(''portal'', ?P)], all_plugins_dict = [(''portal'', ?P)],
                found_plugins_dict = [(''PortalPlugin'', ''flaskbb.plugins.portal'')],
                plugin_folder = ''/srv/plugins''\<rparr>)"
    by (simp add: sample_manager_def sample_pkg_helpers_def sample_pkg_portal_def portal_class_def
        sample_plugin_paths Let_def)
  have run1: "load_plugins ([?helpers] @ ?portal # [?old, ?polls]) sample_manager =
      (fst (load_plugins [?helpers, ?portal, ?old, ?polls] sample_manager),
       snd (load_plugins [?helpers, ?portal, ?old, ?polls] sample_manager))"
    by simp
  have run2: "load_plugins ([?helpers, ?portal] @ ?old # [?polls]) sample_manager =
      (fst (load_plugins [?helpers, ?portal, ?old, ?polls] sample_manager),
       snd (load_plugins [?helpers, ?portal, ?old, ?polls] sample_manager))"
    by simp
  have run3: "load_plugins ([?helpers] @ ?old # []) sample_manager =
      (fst (load_plugins [?helpers, ?old] sample_manager),
       snd (load_plugins [?helpers, ?old] sample_manager))"
    by simp
  have cls1: "dunder_plugin sample_pkg_portal = Some ''PortalPlugin''"
    and get1: "pkg_getattr sample_pkg_portal ''PortalPlugin'' = Some portal_class"
    and new1: "portal_class (fst (os_path_split (get_filename sample_pkg_portal))) = Inr ?P"
    by (simp_all add: sample_pkg_portal_def portal_class_def sample_plugin_paths)
  have cls2: "dunder_plugin sample_pkg_portal_old = Some ''PortalPlugin''"
    and get2: "pkg_getattr sample_pkg_portal_old ''PortalPlugin'' = Some portal_class"
    and new2: "portal_class (fst (os_path_split (get_filename sample_pkg_portal_old))) =
      Inr \<lparr>identifier' = ''portal'', path = ''/srv/plugins/portal_old'', settings_key = Some ''portal''\<rparr>"
    by (simp_all add: sample_pkg_portal_old_def portal_class_def sample_plugin_paths)
  have en: "enabled sample_pkg_portal" "\<not> enabled sample_pkg_portal_old"
    by (simp_all add: enabled_def sample_pkg_portal_def sample_pkg_portal_old_def)
  have later: "identifiers_of (filter (\<lambda>(pkgname, pkg). enabled pkg) [?old, ?polls]) = []"
    "identifiers_of [?polls] = []"
    "identifiers_of (filter (\<lambda>(pkgname, pkg). enabled pkg) ([?helpers] @ [])) = []"
    "identifiers_of [] = []"
    by (simp_all add: en identifiers_of_def map_filter_simps plugin_instance_of_def
        sample_pkg_broken_def sample_pkg_helpers_def)
  have ids: "identifier' ?P = ''portal''"
    "identifier' \<lparr>identifier' = ''portal'', path = ''/srv/plugins/portal_old'',
                  settings_key = Some ''portal''\<rparr> = ''portal''"
    by simp_all
  have a: "map_of (plugins_dict (snd (load_plugins [?helpers, ?portal, ?old, ?polls] sample_manager)))
             ''portal'' = Some ?P"
    using load_plugins_records [OF reach1 run1 cls1 get1 new1, THEN conjunct2, THEN conjunct1]
          en(1) later(1)
    by (simp only: ids list.set empty_iff not_False_eq_True simp_thms)
  have b: "map_of (all_plugins_dict (snd (load_plugins [?helpers, ?portal, ?old, ?polls] sample_manager)))
             ''portal'' =
           Some \<lparr>identifier' = ''portal'', path = ''/srv/plugins/portal_old'',
                  settings_key = Some ''portal''\<rparr>"
    using load_plugins_records [OF reach2 run2 cls2 get2 new2, THEN conjunct1] later(2)
    by (simp only: ids list.set empty_iff not_False_eq_True simp_thms)
  have c: "map_of (plugins_dict (snd (load_plugins [?helpers, ?old] sample_manager))) ''portal'' = None"
    using load_plugins_records
            [OF reach1 run3 cls2 get2 new2, THEN conjunct2, THEN conjunct2, THEN conjunct1]
          en(2) later(3)
    by (simp only: ids list.set empty_iff not_False_eq_True simp_thms)
  have d: "map_of (all_plugins_dict (snd (load_plugins [?helpers, ?old] sample_manager))) ''portal'' =
           Some \<lparr>identifier' = ''portal'', path = ''/srv/plugins/portal_old'',
                  settings_key = Some ''portal''\<rparr>"
    using load_plugins_records [OF reach1 run3 cls2 get2 new2, THEN conjunct1] later(4)
    by (simp only: ids list.set empty_iff not_False_eq_True simp_thms)
  have before: "map_of (plugins_dict sample_manager) ''portal'' = Some sample_plugin"
    by (simp add: sample_manager_def)
  have results: "fst (load_plugins [?helpers, ?portal, ?old, ?polls] sample_manager) =
                   Inl (PluginError (import_error_message ''PollsPlugin''))"
    "fst (load_plugins [?helpers, ?old] sample_manager) =
       Inr [(''PortalPlugin'', ''flaskbb.plugins.portal_old'')]"
    by (simp_all add: sample_load_raising sample_load_disabled_only)
  show ?thesis
    using a b c d en before results by blast
qed

text \<open>
  Claim C3. A scanned package with no \<^verbatim>\<open>__plugin__\<close> attribute is skipped
  silently: \<open>load_plugins\<close> returns or raises, and leaves the three dictionaries,
  exactly as if the package had not been scanned. A package whose \<^verbatim>\<open>__plugin__\<close>
  names an attribute it does not have makes \<open>load_plugins\<close> raise: the call never
  returns normally, and when the loop reaches the package (the packages before it raised
  nothing) the exception is \<^verbatim>\<open>PluginError\<close> with the message about that class name,
  the class name already recorded in \<^verbatim>\<open>_found_plugins\<close>.
\<close>

theorem load_plugins_skips_or_raises:
  "(dunder_plugin pkg = None \<longrightarrow>
      load_plugins (pre @ (pkgname, pkg) # post) self = load_plugins (pre @ post) self) \<and>
   (dunder_plugin pkg = Some class_name \<and> pkg_getattr pkg class_name = None \<longrightarrow>
      (\<exists>e self'. load_plugins (pre @ (pkgname, pkg) # post) self = (Inl e, self')) \<and>
      (\<forall>self1. load_loop pre (self\<lparr>plugins_dict := [], all_plugins_dict := []\<rparr>) = (Inr (), self1) \<longrightarrow>
         load_plugins (pre @ (pkgname, pkg) # post) self =
           (Inl (PluginError (import_error_message class_name)),
            self1\<lparr>found_plugins_dict :=
                     AList.update class_name pkgname (found_plugins_dict self1)\<rparr>)))"
proof -
  define start where "start = self\<lparr>plugins_dict := [], all_plugins_dict := []\<rparr>"
  have skip: "load_plugins (pre @ (pkgname, pkg) # post) self = load_plugins (pre @ post) self"
    if "dunder_plugin pkg = None"
  proof -
    have "load_loop (pre @ (pkgname, pkg) # post) start = load_loop (pre @ post) start"
      by (simp only: load_loop_append [of pre] load_loop_skip [OF that])
    then show ?thesis
      by (simp add: load_plugins_def start_def)
  qed
  have bad: "load_loop (pre @ (pkgname, pkg) # post) start =
      (case load_loop pre start of
         (Inl e, self') \<Rightarrow> (Inl e, self')
       | (Inr u, self1) \<Rightarrow>
           (Inl (PluginError (import_error_message class_name)),
            self1\<lparr>found_plugins_dict :=
                     AList.update class_name pkgname (found_plugins_dict self1)\<rparr>))"
    if "dunder_plugin pkg = Some class_name" "pkg_getattr pkg class_name = None"
    by (simp only: load_loop_append [of pre] load_loop_missing [OF that])
  have raises: "\<exists>e self'. load_plugins (pre @ (pkgname, pkg) # post) self = (Inl e, self')"
    if "dunder_plugin pkg = Some class_name" "pkg_getattr pkg class_name = None"
    using bad [OF that]
    by (auto simp: load_plugins_def start_def split: prod.splits sum.splits)
  have plugin_error: "load_plugins (pre @ (pkgname, pkg) # post) self =
           (Inl (PluginError (import_error_message class_name)),
            self1\<lparr>found_plugins_dict :=
                     AList.update class_name pkgname (found_plugins_dict self1)\<rparr>)"
    if "dunder_plugin pkg = Some class_name" "pkg_getattr pkg class_name = None"
      and "load_loop pre start = (Inr (), self1)" for self1
    using bad [OF that(1,2)] that(3)
    by (simp add: load_plugins_def start_def)
  show ?thesis
    using skip raises plugin_error unfolding start_def by blast
qed

theorem load_plugins_skips_or_raises_witness:
  "dunder_plugin sample_pkg_helpers = None \<and>
   load_plugins
     [(''flaskbb.plugins.portal'', sample_pkg_portal),
      (''flaskbb.plugins.helpers'', sample_pkg_helpers),
      (''flaskbb.plugins.portal_old'', sample_pkg_portal_old)] sample_manager =
   load_plugins
     [(''flaskbb.plugins.portal'', sample_pkg_portal),
      (''flaskbb.plugins.portal_old'', sample_pkg_portal_old)] sample_manager \<and>
   dunder_plugin sample_pkg_broken = Some ''PollsPlugin'' \<and>
   pkg_getattr sample_pkg_broken ''PollsPlugin'' = None \<and>
   fst (load_plugins
     [(''flaskbb.plugins.portal'', sample_pkg_portal),
      (''flaskbb.plugins.polls'', sample_pkg_broken),
      (''flaskbb.plugins.portal_old'', sample_pkg_portal_old)] sample_manager) =
     Inl (PluginError (import_error_message ''PollsPlugin'')) \<and>
   found_plugins_dict (snd (load_plugins
     [(''flaskbb.plugins.portal'', sample_pkg_portal),
      (''flaskbb.plugins.polls'', sample_pkg_broken),
      (''flaskbb.plugins.portal_old'', sample_pkg_portal_old)] sample_manager)) =
     [(''PortalPlugin'', ''flaskbb.plugins.portal''), (''PollsPlugin'', ''flaskbb.plugins.polls'')] \<and>
   all_plugins_dict (snd (load_plugins
     [(''flaskbb.plugins.portal'', sample_pkg_portal),
      (''flaskbb.plugins.polls'', sample_pkg_broken),
      (''flaskbb.plugins.portal_old'', sample_pkg_portal_old)] sample_manager)) =
     [(''portal'', \<lparr>identifier' = ''portal'', path = ''/srv/plugins/portal'',
                     settings_key = Some ''portal''\<rparr>)]"
proof -
  let ?portal = "(''flaskbb.plugins.portal'', sample_pkg_portal)"
  let ?old = "(''flaskbb.plugins.portal_old'', sample_pkg_portal_old)"
  let ?P = "\<lparr>identifier' = ''portal'', path = ''/srv/plugins/portal'', settings_key = Some ''portal''\<rparr>"
  have none: "dunder_plugin sample_pkg_helpers = None"
    by (simp add: sample_pkg_helpers_def)
  have bad: "dunder_plugin sample_pkg_broken = Some ''PollsPlugin'' \<and>
             pkg_getattr sample_pkg_broken ''PollsPlugin'' = None"
    by (simp add: sample_pkg_broken_def)
  have pre: "load_loop [?portal] (sample_manager\<lparr>plugins_dict := [], all_plugins_dict := []\<rparr>) =
      (Inr (),
       \<lparr>plugins_dict = [(''portal'', ?P)], all_plugins_dict = [(''portal'', ?P)],
        found_plugins_dict = [(''PortalPlugin'', ''flaskbb.plugins.portal'')],
        plugin_folder = ''/srv/plugins''\<rparr>)"
    by (simp add: sample_manager_def sample_pkg_portal_def portal_class_def sample_plugin_paths
        Let_def)
  show ?thesis
    using load_plugins_skips_or_raises
            [where pkg = sample_pkg_helpers and class_name = "''PollsPlugin''"
               and pre = "[?portal]" and pkgname = "''flaskbb.plugins.helpers''"
               and post = "[?old]" and self = sample_manager]
          load_plugins_skips_or_raises
            [where pkg = sample_pkg_broken and class_name = "''PollsPlugin''"
               and pre = "[?portal]" and pkgname = "''flaskbb.plugins.polls''"
               and post = "[?old]" and self = sample_manager]
          none bad pre
    by simp
qed

end
